theory Spec2Isabelle
  imports Complex_Main "HOL-Library.Log_Nat" "HOL-Library.AList" "HOL-Library.Multiset"
begin

section \<open>Python floats\<close>

text \<open>
  A Python float is an IEEE binary64 number. Every float of this program is a dyadic
  rational, so floats are modelled as rationals, and each float operation is the exact
  operation followed by \<open>double_of\<close>, rounding to the nearest number with a 53 bit
  significand, ties to even. The exponent range is not bounded here: the floats of this
  program lie between \<open>2\<^sup>-\<^sup>5\<^sup>3\<close> and \<open>10\<^sup>4\<close> in magnitude (or are zero), far from
  the subnormal and the overflow thresholds of binary64.
\<close>

definition round_half_even :: "rat \<Rightarrow> int" where
  "round_half_even x =
     (let f = \<lfloor>x\<rfloor>; d = x - of_int f
      in if d < 1 / 2 then f
         else if 1 / 2 < d then f + 1
         else if even f then f else f + 1)"

text \<open>\<open>floor_log2 q\<close> is the binary exponent of a positive rational: the \<open>e\<close> with
  \<open>2\<^sup>e \<le> q < 2\<^sup>e\<^sup>+\<^sup>1\<close>, found from the bit lengths of numerator and denominator.\<close>

definition floor_log2 :: "rat \<Rightarrow> int" where
  "floor_log2 q =
     (let (a, b) = quotient_of q; d = bitlen a - bitlen b
      in if 2 powi d \<le> q then d else d - 1)"

definition double_of :: "rat \<Rightarrow> rat" where
  "double_of q =
     (if q = 0 then 0
      else let e = floor_log2 \<bar>q\<bar> - 52
           in sgn q * of_int (round_half_even (\<bar>q\<bar> / 2 powi e)) * 2 powi e)"

datatype py_error =
    ZeroDivisionError
  | KeyError string
  | ValueError string
  | IndexError
  | TypeError

text \<open>\<open>a / b\<close> on Python ints: the correctly rounded quotient, ZeroDivisionError for \<open>b = 0\<close>.\<close>

definition py_truediv :: "int \<Rightarrow> int \<Rightarrow> py_error + rat" where
  "py_truediv a b =
     (if b = 0 then Inl ZeroDivisionError else Inr (double_of (of_int a / of_int b)))"

text \<open>\<open>round(x, ndigits)\<close> on a float, \<open>ndigits \<ge> 0\<close>: the decimal with \<open>ndigits\<close> places
  nearest to the exact value of \<open>x\<close> (ties to even), converted back to the nearest float.\<close>

definition py_round :: "rat \<Rightarrow> nat \<Rightarrow> rat" where
  "py_round x ndigits = double_of (of_int (round_half_even (x * 10 ^ ndigits)) / 10 ^ ndigits)"

section \<open>Session state and step 3: the scoring weights\<close>

record 'a factors =
  ship :: 'a
  month :: 'a
  port :: 'a
  theo :: 'a

record weight_config =
  raw :: "nat factors"
  normalized :: "rat factors"

text \<open>
  Lines 291 to 298 of \<open>handle_weights\<close>: the sum of the four raw weights and the four
  quotients. The raw weights are the values of \<open>st.slider(min_value=0, max_value=10)\<close>,
  Python ints that are never negative, hence \<open>nat\<close>.
\<close>

definition normalized_weights :: "nat factors \<Rightarrow> py_error + rat factors" where
  "normalized_weights w =
     (let total_weight = int (ship w) + int (month w) + int (port w) + int (theo w)
      in case py_truediv (int (ship w)) total_weight of Inl e \<Rightarrow> Inl e | Inr s \<Rightarrow>
         case py_truediv (int (month w)) total_weight of Inl e \<Rightarrow> Inl e | Inr m \<Rightarrow>
         case py_truediv (int (port w)) total_weight of Inl e \<Rightarrow> Inl e | Inr p \<Rightarrow>
         case py_truediv (int (theo w)) total_weight of Inl e \<Rightarrow> Inl e | Inr t \<Rightarrow>
           Inr \<lparr>ship = s, month = m, port = p, theo = t\<rparr>)"

text \<open>The dict that \<open>handle_preferences\<close> stores: the selected ships, months (1 to 12)
  and ports, each possibly empty. It also serves as the PreferenceSet of the
  specification.\<close>

record preference_set =
  ships :: "string list"
  months :: "nat list"
  ports :: "string list"

text \<open>What a step puts on the page: a warning (\<open>st.warning\<close>), an error message
  (\<open>st.error\<close>), an uncaught exception, or its regular content. Messages are given
  without their emoji.\<close>

datatype 'a page = Warning string | Error string | Raised py_error | Shown 'a

section \<open>Data frames, the object store and the random generator\<close>

datatype cell = IntCell int | FloatCell rat | StrCell string | NaN

text \<open>A pandas DataFrame, column by column: the row labels and the named columns in their
  order. \<open>len(df)\<close> is the number of row labels.\<close>

record dataframe =
  index :: "int list"
  cols :: "(string \<times> cell list) list"

definition len :: "dataframe \<Rightarrow> nat" where
  "len df = length (index df)"

definition column_names :: "dataframe \<Rightarrow> string list" where
  "column_names df = map fst (cols df)"

text \<open>
  Python variables hold references. \<open>objects\<close> maps an address to the frame stored there
  and \<open>next_addr\<close> is the next unused address. \<open>rng\<close> is the state of the module level
  generator of \<open>random\<close>: the integers it will produce, one for each call of
  \<open>random.random()\<close>, which uses 53 bits of each.
\<close>

record world =
  objects :: "nat \<Rightarrow> dataframe"
  next_addr :: nat
  rng :: "nat \<Rightarrow> int"

definition alloc :: "dataframe \<Rightarrow> world \<Rightarrow> nat \<times> world" where
  "alloc df w =
     (next_addr w, w\<lparr>objects := (objects w)(next_addr w := df), next_addr := Suc (next_addr w)\<rparr>)"

text \<open>\<open>df.copy()\<close>: a new object with the same labels and cells.\<close>

definition df_copy :: "nat \<Rightarrow> world \<Rightarrow> nat \<times> world" where
  "df_copy a w = alloc (objects w a) w"

text \<open>\<open>df[name] = values\<close> changes the object in place: an existing column keeps its place
  and gets the new values, a new column goes last.\<close>

definition setitem :: "nat \<Rightarrow> string \<Rightarrow> cell list \<Rightarrow> world \<Rightarrow> (py_error + unit) \<times> world" where
  "setitem a name vals w =
     (let df = objects w a
      in if length vals \<noteq> len df
         then (Inl (ValueError ''Length of values does not match length of index''), w)
         else (Inr (), w\<lparr>objects := (objects w)(a := df\<lparr>cols := AList.update name vals (cols df)\<rparr>)\<rparr>))"

text \<open>\<open>df.take(indexer)\<close>: the rows at the given positions, in that order.\<close>

definition take_rows :: "dataframe \<Rightarrow> nat list \<Rightarrow> py_error + dataframe" where
  "take_rows df indexer =
     (if list_all (\<lambda>i. i < len df) indexer
      then Inr \<lparr>index = map (\<lambda>i. index df ! i) indexer,
                cols = map (\<lambda>(name, vals). (name, map (\<lambda>i. vals ! i) indexer)) (cols df)\<rparr>
      else Inl IndexError)"

text \<open>
  \<open>df.sort_values(key, ascending=False)\<close> returns a new frame with the rows in the order
  of an indexer computed from the column \<open>key\<close>. The call leaves \<open>kind\<close> at its default
  \<open>'quicksort'\<close>, which pandas hands to numpy and documents as not stable, so the routine
  that computes the indexer is the parameter \<open>argsort_desc\<close>; what is known of it is
  \<open>descending_indexer\<close> below.
\<close>

definition sort_values ::
  "(cell list \<Rightarrow> nat list) \<Rightarrow> nat \<Rightarrow> string \<Rightarrow> world \<Rightarrow> (py_error + nat) \<times> world" where
  "sort_values argsort_desc a key w =
     (let df = objects w a
      in case map_of (cols df) key of
           None \<Rightarrow> (Inl (KeyError key), w)
         | Some keys \<Rightarrow>
             (case take_rows df (argsort_desc keys) of
                Inl e \<Rightarrow> (Inl e, w)
              | Inr taken \<Rightarrow> (case alloc taken w of (b, w') \<Rightarrow> (Inr b, w'))))"

text \<open>\<open>df.reset_index(drop=True)\<close>: a new frame whose row labels are \<open>0, 1, ...\<close>.\<close>

definition reset_index :: "nat \<Rightarrow> world \<Rightarrow> nat \<times> world" where
  "reset_index a w =
     (let df = objects w a in alloc (df\<lparr>index := map int [0..<len df]\<rparr>) w)"

text \<open>\<open>df.insert(loc, name, values)\<close> changes the object in place and raises ValueError
  when a column of that name exists (\<open>allow_duplicates\<close> is left at False).\<close>

definition df_insert :: "nat \<Rightarrow> nat \<Rightarrow> string \<Rightarrow> cell list \<Rightarrow> world \<Rightarrow> (py_error + unit) \<times> world" where
  "df_insert a loc name vals w =
     (let df = objects w a
      in if name \<in> set (column_names df)
         then (Inl (ValueError (''cannot insert '' @ name @ '', already exists'')), w)
         else if length vals \<noteq> len df
         then (Inl (ValueError ''Length of values does not match length of index''), w)
         else if length (cols df) < loc then (Inl IndexError, w)
         else (Inr (), w\<lparr>objects := (objects w)
                 (a := df\<lparr>cols := take loc (cols df) @ (name, vals) # drop loc (cols df)\<rparr>)\<rparr>))"

text \<open>\<open>random.random()\<close>: the next 53 bit integer \<open>k\<close> of the generator as the float
  \<open>k / 2\<^sup>5\<^sup>3\<close>; the generator moves on.\<close>

definition random :: "world \<Rightarrow> rat \<times> world" where
  "random w = (of_int (rng w 0 mod 2 ^ 53) / 2 ^ 53, w\<lparr>rng := (\<lambda>n. rng w (Suc n))\<rparr>)"

text \<open>\<open>random.uniform(a, b)\<close> on ints is \<open>a + (b - a) * random()\<close> in float arithmetic.\<close>

definition uniform :: "int \<Rightarrow> int \<Rightarrow> world \<Rightarrow> rat \<times> world" where
  "uniform a b w =
     (case random w of (r, w') \<Rightarrow>
        (double_of (double_of (of_int a) + double_of (double_of (of_int (b - a)) * r)), w'))"

section \<open>Step 4: the recommendations\<close>

text \<open>Line 444: \<open>[round(random.uniform(65, 95), 2) for _ in range(n)]\<close>.\<close>

fun match_scores :: "nat \<Rightarrow> world \<Rightarrow> rat list \<times> world" where
  "match_scores 0 w = ([], w)"
| "match_scores (Suc n) w =
     (case uniform 65 95 w of (x, w1) \<Rightarrow>
        (case match_scores n w1 of (xs, w2) \<Rightarrow> (py_round x 2 # xs, w2)))"

text \<open>The element of that list in closed form: the score computed from one output \<open>k\<close>
  of the generator (see \<open>match_scores_eq\<close>).\<close>

definition score_of :: "int \<Rightarrow> rat" where
  "score_of k =
     py_round (double_of (double_of 65 + double_of (double_of 30 * (of_int (k mod 2 ^ 53) / 2 ^ 53)))) 2"

definition create_dummy_recommendations_with_scores ::
  "(cell list \<Rightarrow> nat list) \<Rightarrow> nat \<Rightarrow> world \<Rightarrow> (py_error + nat) \<times> world" where
  "create_dummy_recommendations_with_scores argsort_desc original_df w0 =
     (case df_copy original_df w0 of (recommendations, w1) \<Rightarrow>
      case match_scores (len (objects w1 recommendations)) w1 of (scores, w2) \<Rightarrow>
      case setitem recommendations ''Match Score'' (map FloatCell scores) w2 of
        (Inl e, w3) \<Rightarrow> (Inl e, w3)
      | (Inr _, w3) \<Rightarrow>
      case sort_values argsort_desc recommendations ''Match Score'' w3 of
        (Inl e, w4) \<Rightarrow> (Inl e, w4)
      | (Inr sorted_df, w4) \<Rightarrow>
      case reset_index sorted_df w4 of (ranked, w5) \<Rightarrow>
      case df_insert ranked 0 ''Rank''
             (map IntCell [1..int (len (objects w5 ranked))]) w5 of
        (Inl e, w6) \<Rightarrow> (Inl e, w6)
      | (Inr _, w6) \<Rightarrow> (Inr ranked, w6))"

text \<open>What a call hands back to its caller: the exception, or the frame at the address
  it returns.\<close>

definition returned_frame ::
  "(cell list \<Rightarrow> nat list) \<Rightarrow> nat \<Rightarrow> world \<Rightarrow> py_error + dataframe" where
  "returned_frame argsort_desc original_df w =
     (case create_dummy_recommendations_with_scores argsort_desc original_df w of
        (Inl e, w') \<Rightarrow> Inl e
      | (Inr recommendations, w') \<Rightarrow> Inr (objects w' recommendations))"

text \<open>A memory whose only object is the frame \<open>df\<close>, at address 0, with a generator
  about to produce \<open>g 0\<close>, \<open>g 1\<close> and so on.\<close>

definition one_frame_world :: "dataframe \<Rightarrow> (nat \<Rightarrow> int) \<Rightarrow> world" where
  "one_frame_world df g = \<lparr>objects = (\<lambda>_. df), next_addr = 1, rng = g\<rparr>"

text \<open>What the call site knows of the indexer of a descending sort: on a column of floats
  it is a rearrangement of the row positions that puts the keys in descending order.\<close>

definition descending_indexer :: "(cell list \<Rightarrow> nat list) \<Rightarrow> bool" where
  "descending_indexer argsort_desc \<longleftrightarrow>
     (\<forall>keys. mset (argsort_desc (map FloatCell keys)) = mset [0..<length keys]
        \<and> sorted_wrt (\<lambda>i j. keys ! j \<le> keys ! i) (argsort_desc (map FloatCell keys)))"

text \<open>Two indexers within that contract. The first keeps rows with equal keys in their
  input order (\<open>kind='stable'\<close>); the second sorts ascending and reverses, which
  turns each run of equal keys around. Neither is numpy's own routine, which is not part
  of this program.\<close>

fun cell_key :: "cell \<Rightarrow> rat" where
  "cell_key (FloatCell x) = x"
| "cell_key (IntCell i) = of_int i"
| "cell_key (StrCell s) = 0"
| "cell_key NaN = 0"

definition stable_argsort_desc :: "cell list \<Rightarrow> nat list" where
  "stable_argsort_desc keys = sort_key (\<lambda>i. - cell_key (keys ! i)) [0..<length keys]"

definition reversed_argsort :: "cell list \<Rightarrow> nat list" where
  "reversed_argsort keys = rev (sort_key (\<lambda>i. cell_key (keys ! i)) [0..<length keys])"

section \<open>The session and the steps of the form\<close>

text \<open>An uploaded workbook is its sheets by name. \<open>st.session_state\<close> starts with no file
  and with empty dicts for preferences and weights; an empty dict is \<open>None\<close> here, as
  the code only tests it for truth.\<close>

type_synonym workbook = "(string \<times> dataframe) list"

record session_state =
  uploaded_file :: "workbook option"
  preferences :: "preference_set option"
  weights :: "weight_config option"

text \<open>\<open>handle_weights\<close>, with the values of the four sliders as its input. The metrics it
  draws at the end show the normalised weights and are the page's content.\<close>

definition handle_weights :: "nat factors \<Rightarrow> session_state \<Rightarrow> rat factors page \<times> session_state" where
  "handle_weights sliders s =
     (if uploaded_file s = None then (Warning ''Please upload a file first (Step 1).'', s)
      else if list_all (\<lambda>w. w = 0) [ship sliders, month sliders, port sliders, theo sliders]
      then (Error ''At least one factor must be greater than 0!'', s)
      else case normalized_weights sliders of
             Inl e \<Rightarrow> (Raised e, s)
           | Inr n \<Rightarrow> (Shown n, s\<lparr>weights := Some \<lparr>raw = sliders, normalized = n\<rparr>\<rparr>))"

text \<open>\<open>pd.read_excel(file, sheet_name=...)\<close>: a new frame with the cells of the sheet.\<close>

definition read_excel :: "workbook \<Rightarrow> string \<Rightarrow> world \<Rightarrow> (py_error + nat) \<times> world" where
  "read_excel file sheet w =
     (case map_of file sheet of
        None \<Rightarrow> (Inl (ValueError (''Worksheet named '' @ sheet @ '' not found'')), w)
      | Some df \<Rightarrow> (case alloc df w of (a, w') \<Rightarrow> (Inr a, w')))"

fun join :: "string \<Rightarrow> string list \<Rightarrow> string" where
  "join sep [] = []"
| "join sep [x] = x"
| "join sep (x # y # ys) = x @ sep @ join sep (y # ys)"

subsection \<open>The full results view\<close>

text \<open>\<open>df[keep]\<close> for a boolean series: the rows whose entry is true.\<close>

definition select_rows :: "dataframe \<Rightarrow> bool list \<Rightarrow> dataframe" where
  "select_rows df keep =
     \<lparr>index = map fst (filter snd (zip (index df) keep)),
      cols = map (\<lambda>(name, vals). (name, map fst (filter snd (zip vals keep)))) (cols df)\<rparr>"

text \<open>\<open>df[df[name].isin(choice)]\<close>.\<close>

definition isin_rows :: "dataframe \<Rightarrow> string \<Rightarrow> cell list \<Rightarrow> py_error + dataframe" where
  "isin_rows df name choice =
     (case map_of (cols df) name of
        None \<Rightarrow> Inl (KeyError name)
      | Some vals \<Rightarrow> Inr (select_rows df (map (\<lambda>v. v \<in> set choice) vals)))"

text \<open>\<open>value >= min_score\<close> for one cell and an int: a string cannot be compared, and the
  comparison with NaN is false.\<close>

fun cell_ge :: "cell \<Rightarrow> int \<Rightarrow> py_error + bool" where
  "cell_ge (FloatCell x) m = Inr (of_int m \<le> x)"
| "cell_ge (IntCell i) m = Inr (m \<le> i)"
| "cell_ge NaN m = Inr False"
| "cell_ge (StrCell s) m = Inl TypeError"

fun ge_mask :: "cell list \<Rightarrow> int \<Rightarrow> py_error + bool list" where
  "ge_mask [] m = Inr []"
| "ge_mask (v # vs) m =
     (case cell_ge v m of
        Inl e \<Rightarrow> Inl e
      | Inr b \<Rightarrow> (case ge_mask vs m of Inl e \<Rightarrow> Inl e | Inr bs \<Rightarrow> Inr (b # bs)))"

text \<open>\<open>sorted(values)\<close> raises TypeError when it has to compare a string with a number
  (NaN is a float), that is, when both kinds are among the values.\<close>

fun is_str :: "cell \<Rightarrow> bool" where
  "is_str (StrCell s) = True"
| "is_str (IntCell i) = False"
| "is_str (FloatCell x) = False"
| "is_str NaN = False"

definition sorted_raises :: "cell list \<Rightarrow> bool" where
  "sorted_raises vals \<longleftrightarrow> list_ex is_str vals \<and> list_ex (\<lambda>v. \<not> is_str v) vals"

text \<open>\<open>display_full_results\<close>: the frame it shows, from the frame of recommendations, the
  choices made in the two multiselects and the value of the slider. The options of the
  month multiselect are \<open>sorted(df['Month'].unique())\<close>, computed before anything is
  filtered.\<close>

definition display_full_results ::
  "dataframe \<Rightarrow> cell list \<Rightarrow> cell list \<Rightarrow> int \<Rightarrow> py_error + dataframe" where
  "display_full_results df ship_choice month_choice min_score =
     (let ship_filter = (if ''Ship Code'' \<in> set (column_names df) then ship_choice else []);
          month_filter = (if ''Month'' \<in> set (column_names df) then month_choice else [])
      in if ''Month'' \<in> set (column_names df)
            \<and> (case map_of (cols df) ''Month'' of None \<Rightarrow> False | Some vals \<Rightarrow> sorted_raises vals)
         then Inl TypeError
         else
        case (if ship_filter \<noteq> [] \<and> ''Ship Code'' \<in> set (column_names df)
               then isin_rows df ''Ship Code'' ship_filter else Inr df) of
           Inl e \<Rightarrow> Inl e
         | Inr by_ship \<Rightarrow>
        (case (if month_filter \<noteq> [] \<and> ''Month'' \<in> set (column_names df)
               then isin_rows by_ship ''Month'' month_filter else Inr by_ship) of
           Inl e \<Rightarrow> Inl e
         | Inr by_month \<Rightarrow>
        (case map_of (cols by_month) ''Match Score'' of
           None \<Rightarrow> Inl (KeyError ''Match Score'')
         | Some scores \<Rightarrow>
             (case ge_mask scores min_score of
                Inl e \<Rightarrow> Inl e
              | Inr keep \<Rightarrow> Inr (select_rows by_month keep)))))"

text \<open>
  \<open>handle_recommendations\<close>, with the state of the button as input. Its content, once the
  button is pressed, is the workbook offered for download: the sheet of the data as read
  and the sheet of the recommendations. The third sheet, the preferences and weights as
  text, is left out. Between the scoring and the download the three views are drawn. Each
  works on a copy of its own and only reads \<open>recommendations_df\<close>; the first two raise
  nothing, and an exception of the third ends the run before the download is built. In
  a run in which the button is pressed, the widgets of the third view hold their
  defaults, nothing chosen and minimum score 70: a change to one of them starts a run in
  which the button is not pressed.
\<close>

definition handle_recommendations ::
  "(cell list \<Rightarrow> nat list) \<Rightarrow> bool \<Rightarrow> session_state \<Rightarrow> world \<Rightarrow> workbook option page \<times> world" where
  "handle_recommendations argsort_desc button s w =
     (let missing_steps =
            (if uploaded_file s = None then [''Upload file (Step 1)''] else []) @
            (if preferences s = None then [''Set preferences (Step 2)''] else []) @
            (if weights s = None then [''Configure weights (Step 3)''] else [])
      in case (missing_steps, uploaded_file s) of
           ([], Some file) \<Rightarrow>
             if \<not> button then (Shown None, w)
             else (case read_excel file ''Master Sailings Grid'' w of
                (Inl e, w1) \<Rightarrow> (Raised e, w1)
              | (Inr original_df, w1) \<Rightarrow>
                (case create_dummy_recommendations_with_scores argsort_desc original_df w1 of
                   (Inl e, w2) \<Rightarrow> (Raised e, w2)
                 | (Inr recommendations_df, w2) \<Rightarrow>
                     (case display_full_results (objects w2 recommendations_df) [] [] 70 of
                        Inl e \<Rightarrow> (Raised e, w2)
                      | Inr shown \<Rightarrow>
                          (Shown (Some [(''Master Sailings Grid'', objects w2 original_df),
                                        (''Sailing Recommendations'',
                                         objects w2 recommendations_df)]),
                           w2))))
         | _ \<Rightarrow>
             (Warning (''Please complete these steps first: '' @ join '', '' missing_steps), w))"

subsection \<open>The runs of the script\<close>

text \<open>
  \<open>handle_file_upload\<close> and \<open>handle_preferences\<close>, as far as they change the session
  (lines 100 to 101 and 198 to 202): the value of the uploader, if there is one, becomes
  the uploaded file, and the three selections become the preferences once a file is
  uploaded. What they draw is not modelled.
\<close>

definition handle_file_upload :: "workbook option \<Rightarrow> session_state \<Rightarrow> session_state" where
  "handle_file_upload uploaded s =
     (case uploaded of None \<Rightarrow> s | Some file \<Rightarrow> s\<lparr>uploaded_file := Some file\<rparr>)"

definition handle_preferences ::
  "string list \<Rightarrow> nat list \<Rightarrow> string list \<Rightarrow> session_state \<Rightarrow> session_state" where
  "handle_preferences ship_list month_list port_list s =
     (if uploaded_file s = None then s
      else s\<lparr>preferences := Some \<lparr>ships = ship_list, months = month_list, ports = port_list\<rparr>\<rparr>)"

text \<open>One run of \<open>main\<close>: the step chosen in the sidebar with the values of its widgets,
  and the session it leaves. Step 4 does not write to the session.\<close>

datatype step =
    Upload_Data "workbook option"
  | Set_Preferences "string list" "nat list" "string list"
  | Configure_Weights "nat factors"
  | Generate_Recommendations bool

fun main :: "step \<Rightarrow> session_state \<Rightarrow> session_state" where
  "main (Upload_Data uploaded) s = handle_file_upload uploaded s"
| "main (Set_Preferences ship_list month_list port_list) s =
     handle_preferences ship_list month_list port_list s"
| "main (Configure_Weights sliders) s = snd (handle_weights sliders s)"
| "main (Generate_Recommendations button) s = s"

text \<open>The sessions that the script can be in: the one that the first run sets up (lines 62
  to 67), and every session that a run leaves.\<close>

inductive reachable :: "session_state \<Rightarrow> bool" where
  start: "reachable \<lparr>uploaded_file = None, preferences = None, weights = None\<rparr>"
| run: "reachable s \<Longrightarrow> reachable (main step s)"

section \<open>The scoring engine of the specification\<close>

text \<open>Modelled from the spec: a SailingRecord (section 3) with the four fields the
  scorers read. The source has no such type; its rows are the rows of the uploaded sheet.\<close>

record sailing_record =
  ship_id :: string
  sailing_month :: nat
  origin_port :: string
  profitability :: rat

text \<open>Modelled from the spec: the ship scorer of section 4.2, absent from the source:
  1.0 if the record's ship is in the preference set or the set is empty, 0.0 otherwise.\<close>

definition ship_scorer :: "sailing_record \<Rightarrow> preference_set \<Rightarrow> rat" where
  "ship_scorer r p = (if ship_id r \<in> set (ships p) \<or> ships p = [] then 1 else 0)"

text \<open>Modelled from the spec: the month scorer of section 4.2, absent from the source:
  1.0 if the record's month is in the preference set or the set is empty, 0.0 otherwise.\<close>

definition month_scorer :: "sailing_record \<Rightarrow> preference_set \<Rightarrow> rat" where
  "month_scorer r p = (if sailing_month r \<in> set (months p) \<or> months p = [] then 1 else 0)"

text \<open>Modelled from the spec: the port scorer of section 4.2, absent from the source:
  1.0 if the record's port is in the preference set or the set is empty, 0.0 otherwise.\<close>

definition port_scorer :: "sailing_record \<Rightarrow> preference_set \<Rightarrow> rat" where
  "port_scorer r p = (if origin_port r \<in> set (ports p) \<or> ports p = [] then 1 else 0)"

text \<open>Modelled from the spec: the profitability scorer of section 4.2, absent from the
  source: min-max normalisation against the range of the data set, clamped to [0, 1],
  and 0.5 when the range is a single value.\<close>

definition profitability_scorer :: "rat \<Rightarrow> rat \<Rightarrow> sailing_record \<Rightarrow> rat" where
  "profitability_scorer lo hi r =
     (if hi = lo then 1 / 2 else max 0 (min 1 ((profitability r - lo) / (hi - lo))))"

text \<open>Modelled from the spec: the Match Score of section 4.3, absent from the source: 100
  times the sum over the four factors of normalised weight times factor score, with the
  normalised weights of section 3, raw weight over the sum of the raw weights.\<close>

definition spec_match_score ::
  "nat factors \<Rightarrow> preference_set \<Rightarrow> rat \<Rightarrow> rat \<Rightarrow> sailing_record \<Rightarrow> rat" where
  "spec_match_score w p lo hi r =
     (let total = of_nat (ship w + month w + port w + theo w)
      in 100 * (of_nat (ship w) / total * ship_scorer r p
              + of_nat (month w) / total * month_scorer r p
              + of_nat (port w) / total * port_scorer r p
              + of_nat (theo w) / total * profitability_scorer lo hi r))"

section \<open>Properties of the float model\<close>

lemma bitlen_rat_bounds:
  assumes "0 < a"
  shows "(2::rat) powi (bitlen a - 1) \<le> of_int a" and "of_int a < (2::rat) powi bitlen a"
proof -
  from assms have ge1: "1 \<le> bitlen a"
    by (simp add: bitlen_alt_def)
  have lo: "2 ^ nat (bitlen a - 1) \<le> a" and hi: "a < 2 ^ nat (bitlen a)"
    using bitlen_bounds [OF assms] by simp_all
  have "(2::rat) powi (bitlen a - 1) = of_int (2 ^ nat (bitlen a - 1))"
    using ge1 by (simp add: power_int_nonneg_exp)
  also have "\<dots> \<le> of_int a"
    using lo by (simp only: of_int_le_iff)
  finally show "(2::rat) powi (bitlen a - 1) \<le> of_int a" .
  have "(of_int a :: rat) < of_int (2 ^ nat (bitlen a))"
    using hi by (simp only: of_int_less_iff)
  also have "\<dots> = 2 powi bitlen a"
    using ge1 by (simp add: power_int_nonneg_exp)
  finally show "of_int a < (2::rat) powi bitlen a" .
qed

lemma floor_log2_bounds:
  assumes "0 < q"
  shows "2 powi floor_log2 q \<le> q" and "q < 2 powi (floor_log2 q + 1)"
proof -
  obtain a b where ab: "quotient_of q = (a, b)"
    by (cases "quotient_of q")
  then have b: "0 < b" and q: "q = of_int a / of_int b"
    by (simp_all add: quotient_of_denom_pos quotient_of_div)
  from assms q b have a: "0 < a"
    by (simp add: zero_less_divide_iff)
  define d where "d = bitlen a - bitlen b"
  have fl: "floor_log2 q = (if 2 powi d \<le> q then d else d - 1)"
    by (simp add: floor_log2_def ab d_def Let_def)
  have "2 powi (d - 1) * of_int b < (2::rat) powi (d - 1) * 2 powi bitlen b"
    using bitlen_rat_bounds(2) [OF b] by simp
  also have "\<dots> = 2 powi (bitlen a - 1)"
    by (simp add: d_def flip: power_int_add)
  also have "\<dots> \<le> of_int a"
    by (rule bitlen_rat_bounds(1) [OF a])
  finally have lo: "2 powi (d - 1) < q"
    using b by (simp add: q pos_less_divide_eq)
  have "of_int a < (2::rat) powi bitlen a"
    by (rule bitlen_rat_bounds(2) [OF a])
  also have "\<dots> = 2 powi (d + 1) * 2 powi (bitlen b - 1)"
    by (simp add: d_def flip: power_int_add)
  also have "\<dots> \<le> 2 powi (d + 1) * of_int b"
    using bitlen_rat_bounds(1) [OF b] by simp
  finally have hi: "q < 2 powi (d + 1)"
    using b by (simp add: q pos_divide_less_eq)
  show "2 powi floor_log2 q \<le> q"
    using lo by (simp add: fl)
  show "q < 2 powi (floor_log2 q + 1)"
    using hi by (simp add: fl not_le)
qed

lemma round_half_even_le:
  assumes "x \<le> of_int n"
  shows "round_half_even x \<le> n"
proof (cases "x = of_int n")
  case True
  then show ?thesis by (simp add: round_half_even_def)
next
  case False
  with assms have "x < of_int n" by simp
  then have "\<lfloor>x\<rfloor> < n" by (simp add: floor_less_iff)
  then show ?thesis
    by (simp add: round_half_even_def Let_def)
qed

lemma round_half_even_ge:
  assumes "of_int n \<le> x"
  shows "n \<le> round_half_even x"
proof -
  have "n \<le> \<lfloor>x\<rfloor>"
    using assms by (simp add: le_floor_iff)
  then show ?thesis
    by (simp add: round_half_even_def Let_def)
qed

lemma round_half_even_error: "\<bar>of_int (round_half_even x) - x\<bar> \<le> 1 / 2"
proof -
  have "of_int \<lfloor>x\<rfloor> \<le> x" and "x < of_int \<lfloor>x\<rfloor> + 1"
    by linarith+
  then show ?thesis
    by (auto simp add: round_half_even_def Let_def abs_le_iff)
qed

lemma double_of_pos:
  assumes "0 < q"
  shows "double_of q =
    of_int (round_half_even (q / 2 powi (floor_log2 q - 52))) * 2 powi (floor_log2 q - 52)"
  using assms by (simp add: double_of_def Let_def)

text \<open>One rounding moves a value by at most half a unit in the last place.\<close>

lemma double_of_rel_error:
  assumes "0 \<le> q"
  shows "\<bar>double_of q - q\<bar> \<le> q / 2 ^ 53"
proof (cases "q = 0")
  case True
  then show ?thesis by (simp add: double_of_def)
next
  case False
  with assms have pos: "0 < q" by simp
  define e where "e = floor_log2 q - 52"
  define u :: rat where "u = 2 powi e"
  have u: "0 < u" by (simp add: u_def)
  have "u * 2 ^ 52 = 2 powi (e + 52)"
    by (simp add: u_def power_int_add)
  also have "\<dots> \<le> q"
    using floor_log2_bounds(1) [OF pos] by (simp add: e_def)
  finally have small: "u * 2 ^ 52 \<le> q" .
  have "double_of q - q = (of_int (round_half_even (q / u)) - q / u) * u"
    using u by (simp add: double_of_pos [OF pos] e_def u_def algebra_simps)
  then have "\<bar>double_of q - q\<bar> = \<bar>of_int (round_half_even (q / u)) - q / u\<bar> * u"
    using u by (simp add: abs_mult)
  also have "\<dots> \<le> (1 / 2) * u"
    using u round_half_even_error [of "q / u"] by (intro mult_right_mono) simp_all
  also have "\<dots> \<le> q / 2 ^ 53"
    using small by (simp add: field_simps)
  finally show ?thesis .
qed

text \<open>Rounding never crosses an integer: below \<open>2\<^sup>5\<^sup>3\<close> every integer is a float.\<close>

lemma double_of_int_bounds:
  assumes "of_int a \<le> q" and "q \<le> of_int b" and "0 \<le> q" and "q < 2 ^ 53"
  shows "of_int a \<le> double_of q" and "double_of q \<le> of_int b"
proof -
  have "of_int a \<le> double_of q \<and> double_of q \<le> of_int b"
  proof (cases "q = 0")
    case True
    with assms show ?thesis by (simp add: double_of_def)
  next
    case False
    with assms have pos: "0 < q" by simp
    define e where "e = floor_log2 q - 52"
    have "(2::rat) powi (e + 52) \<le> q"
      using floor_log2_bounds(1) [OF pos] by (simp add: e_def)
    also have "q < 2 powi 53"
      using assms(4) by simp
    finally have "e + 52 < 53"
      by (rule power_int_le_imp_less_exp [rotated]) simp_all
    then have e: "e \<le> 0" by simp
    define k where "k = nat (- e)"
    have u: "(2::rat) powi e = 1 / 2 ^ k"
      using e by (simp add: k_def power_int_def inverse_eq_divide power_one_over)
    have d: "double_of q = of_int (round_half_even (q * 2 ^ k)) / 2 ^ k"
      by (simp add: double_of_pos [OF pos] u flip: e_def)
    have "of_int (a * 2 ^ k) \<le> q * 2 ^ k"
      using assms(1) by simp
    then have "a * 2 ^ k \<le> round_half_even (q * 2 ^ k)"
      by (rule round_half_even_ge)
    then have "(of_int (a * 2 ^ k) :: rat) \<le> of_int (round_half_even (q * 2 ^ k))"
      by (simp only: of_int_le_iff)
    then have lo: "of_int a \<le> double_of q"
      by (simp add: d pos_le_divide_eq)
    have "q * 2 ^ k \<le> of_int (b * 2 ^ k)"
      using assms(2) by simp
    then have "round_half_even (q * 2 ^ k) \<le> b * 2 ^ k"
      by (rule round_half_even_le)
    then have "(of_int (round_half_even (q * 2 ^ k)) :: rat) \<le> of_int (b * 2 ^ k)"
      by (simp only: of_int_le_iff)
    then have hi: "double_of q \<le> of_int b"
      by (simp add: d pos_divide_le_eq)
    from lo hi show ?thesis ..
  qed
  then show "of_int a \<le> double_of q" and "double_of q \<le> of_int b"
    by simp_all
qed

lemma double_of_of_int:
  assumes "0 \<le> n" and "n < 2 ^ 53"
  shows "double_of (of_int n) = of_int n"
proof -
  have "(of_int n :: rat) < 2 ^ 53"
    using assms(2) by (metis of_int_less_iff of_int_numeral of_int_power)
  moreover have "(0::rat) \<le> of_int n"
    using assms(1) by simp
  ultimately have "of_int n \<le> double_of (of_int n)" and "double_of (of_int n) \<le> of_int n"
    using double_of_int_bounds [of n "of_int n" n] by simp_all
  then show ?thesis by simp
qed

section \<open>The scores of line 444\<close>

lemma score_of_cents:
  "\<exists>j. 6500 \<le> j \<and> j \<le> 9500 \<and> score_of k = double_of (of_int j / 100)"
proof -
  define r :: rat where "r = of_int (k mod 2 ^ 53) / 2 ^ 53"
  have "0 \<le> k mod 2 ^ 53" and "k mod 2 ^ 53 < 2 ^ 53"
    by simp_all
  then have r0: "0 \<le> r" and r1: "r < 1"
    by (simp_all add: r_def)
  have c30: "double_of 30 = 30" and c65: "double_of 65 = 65"
    using double_of_of_int [of 30] double_of_of_int [of 65] by simp_all
  define y where "y = double_of (30 * r)"
  have "of_int 0 \<le> 30 * r" and "30 * r \<le> of_int 30" and "0 \<le> 30 * r" and "30 * r < 2 ^ 53"
    using r0 r1 by simp_all
  from double_of_int_bounds [OF this] have y: "0 \<le> y" "y \<le> 30"
    by (simp_all add: y_def)
  define x where "x = double_of (65 + y)"
  have "of_int 65 \<le> 65 + y" and "65 + y \<le> of_int 95" and "0 \<le> 65 + y" and "65 + y < 2 ^ 53"
    using y by simp_all
  from double_of_int_bounds [OF this] have x: "65 \<le> x" "x \<le> 95"
    by (simp_all add: x_def)
  define j where "j = round_half_even (x * 10 ^ 2)"
  have "of_int 6500 \<le> x * 10 ^ 2" and "x * 10 ^ 2 \<le> of_int 9500"
    using x by simp_all
  then have j: "6500 \<le> j" "j \<le> 9500"
    unfolding j_def by (simp_all add: round_half_even_ge round_half_even_le)
  have "score_of k = double_of (of_int j / 100)"
    by (simp add: score_of_def py_round_def c30 c65 j_def x_def y_def r_def)
  with j show ?thesis by blast
qed

lemma score_of_range: "65 \<le> score_of k" "score_of k \<le> 95"
proof -
  obtain j where j: "6500 \<le> j" "j \<le> 9500" and s: "score_of k = double_of (of_int j / 100)"
    using score_of_cents by blast
  have "of_int 65 \<le> (of_int j / 100 :: rat)" and "(of_int j / 100 :: rat) \<le> of_int 95"
    and "(0::rat) \<le> of_int j / 100" and "(of_int j / 100 :: rat) < 2 ^ 53"
    using j by simp_all
  from double_of_int_bounds [OF this] show "65 \<le> score_of k" "score_of k \<le> 95"
    by (simp_all add: s)
qed

lemma match_scores_eq:
  "match_scores n w =
     (map (\<lambda>i. score_of (rng w i)) [0..<n], w\<lparr>rng := (\<lambda>k. rng w (n + k))\<rparr>)"
proof (induction n arbitrary: w)
  case 0
  then show ?case by simp
next
  case (Suc n)
  have "map (\<lambda>i. score_of (rng w i)) [0..<Suc n]
      = score_of (rng w 0) # map (\<lambda>i. score_of (rng w (Suc i))) [0..<n]"
    by (simp add: upt_conv_Cons map_Suc_upt [symmetric] del: upt_Suc)
  then show ?case
    by (simp add: Suc.IH uniform_def random_def score_of_def del: upt_Suc)
qed

section \<open>One run of the recommendation step\<close>

text \<open>The run in closed form: the three ways it can end, and the objects it leaves.\<close>

lemma map_of_scores:
  "map_of (AList.update ''Match Score'' vals al) ''Match Score'' = Some vals"
  by (simp add: update_conv')

lemma names_update:
  "fst ` set (AList.update k v al) = insert k (fst ` set al)"
  by (simp add: dom_update)

lemma create_dummy_run:
  fixes w :: world and a :: nat and argsort_desc :: "cell list \<Rightarrow> nat list"
  defines "df \<equiv> objects w a"
  defines "vals \<equiv> map (\<lambda>i. FloatCell (score_of (rng w i))) [0..<len df]"
  defines "scored \<equiv> df\<lparr>cols := AList.update ''Match Score'' vals (cols df)\<rparr>"
  defines "idx \<equiv> argsort_desc vals"
  defines "taken \<equiv> \<lparr>index = map (\<lambda>i. index df ! i) idx,
                       cols = map (\<lambda>(name, vs). (name, map (\<lambda>i. vs ! i) idx)) (cols scored)\<rparr>"
  defines "na \<equiv> next_addr w"
  shows "create_dummy_recommendations_with_scores argsort_desc a w =
    (if \<not> list_all (\<lambda>i. i < len df) idx
     then (Inl IndexError,
           w\<lparr>objects := (objects w)(na := scored), next_addr := Suc na,
             rng := (\<lambda>k. rng w (len df + k))\<rparr>)
     else if ''Rank'' \<in> set (column_names df)
     then (Inl (ValueError ''cannot insert Rank, already exists''),
           w\<lparr>objects := (objects w)(na := scored, Suc na := taken,
                  Suc (Suc na) := taken\<lparr>index := map int [0..<length idx]\<rparr>),
             next_addr := Suc (Suc (Suc na)), rng := (\<lambda>k. rng w (len df + k))\<rparr>)
     else (Inr (Suc (Suc na)),
           w\<lparr>objects := (objects w)(na := scored, Suc na := taken,
                  Suc (Suc na) := \<lparr>index = map int [0..<length idx],
                     cols = (''Rank'', map IntCell [1..int (length idx)]) # cols taken\<rparr>),
             next_addr := Suc (Suc (Suc na)), rng := (\<lambda>k. rng w (len df + k))\<rparr>))"
proof -
  define w1 where "w1 = w\<lparr>objects := (objects w)(na := df), next_addr := Suc na\<rparr>"
  define w2 where "w2 = w1\<lparr>rng := (\<lambda>k. rng w (len df + k))\<rparr>"
  define w3 where "w3 = w2\<lparr>objects := (objects w2)(na := scored)\<rparr>"
  have copy: "df_copy a w = (na, w1)"
    by (simp add: df_copy_def alloc_def w1_def na_def df_def)
  have obj1: "objects w1 na = df"
    by (simp add: w1_def)
  have draw: "match_scores (len df) w1 = (map (\<lambda>i. score_of (rng w i)) [0..<len df], w2)"
    by (simp add: match_scores_eq w2_def w1_def)
  have vs: "map FloatCell (map (\<lambda>i. score_of (rng w i)) [0..<len df]) = vals"
    by (simp add: vals_def comp_def)
  have lv: "length vals = len df"
    by (simp add: vals_def)
  have obj2: "objects w2 na = df"
    by (simp add: w2_def w1_def)
  have set: "setitem na ''Match Score'' vals w2 = (Inr (), w3)"
    by (simp add: setitem_def obj2 lv w3_def scored_def Let_def)
  have obj3: "objects w3 na = scored"
    by (simp add: w3_def)
  have key: "map_of (cols scored) ''Match Score'' = Some vals"
    by (simp add: scored_def map_of_scores)
  have lens: "len scored = len df" and ind: "index scored = index df"
    by (simp_all add: scored_def len_def)
  define w4 where "w4 = w3\<lparr>objects := (objects w3)(Suc na := taken), next_addr := Suc (Suc na)\<rparr>"
  have next3: "next_addr w3 = Suc na"
    by (simp add: w3_def w2_def w1_def)
  have sort: "sort_values argsort_desc na ''Match Score'' w3 =
      (if list_all (\<lambda>i. i < len df) idx then (Inr (Suc na), w4) else (Inl IndexError, w3))"
    by (simp add: sort_values_def obj3 key take_rows_def lens ind alloc_def next3 w4_def
        taken_def Let_def flip: idx_def)
  define ranked where "ranked = taken\<lparr>index := map int [0..<length idx]\<rparr>"
  define w5 where "w5 = w4\<lparr>objects := (objects w4)(Suc (Suc na) := ranked),
      next_addr := Suc (Suc (Suc na))\<rparr>"
  have reset: "reset_index (Suc na) w4 = (Suc (Suc na), w5)"
    by (simp add: reset_index_def w4_def alloc_def w5_def ranked_def Let_def len_def taken_def)
  have obj5: "objects w5 (Suc (Suc na)) = ranked"
    by (simp add: w5_def)
  have lr: "len ranked = length idx"
    by (simp add: ranked_def len_def)
  have "column_names ranked = column_names scored"
    by (simp add: ranked_def taken_def column_names_def case_prod_unfold comp_def)
  then have rn: "''Rank'' \<in> set (column_names ranked) \<longleftrightarrow> ''Rank'' \<in> set (column_names df)"
    by (simp add: scored_def column_names_def names_update)
  define final where "final = ranked\<lparr>cols := (''Rank'', map IntCell [1..int (length idx)]) # cols ranked\<rparr>"
  have ins: "df_insert (Suc (Suc na)) 0 ''Rank'' (map IntCell [1..int (length idx)]) w5 =
      (if ''Rank'' \<in> set (column_names df)
       then (Inl (ValueError ''cannot insert Rank, already exists''), w5)
       else (Inr (), w5\<lparr>objects := (objects w5)(Suc (Suc na) := final)\<rparr>))"
    by (simp add: df_insert_def obj5 rn lr final_def Let_def)
  have w3_eq: "w3 = w\<lparr>objects := (objects w)(na := scored), next_addr := Suc na,
             rng := (\<lambda>k. rng w (len df + k))\<rparr>"
    by (simp add: w3_def w2_def w1_def)
  have w5_eq: "w5 = w\<lparr>objects := (objects w)(na := scored, Suc na := taken,
                  Suc (Suc na) := taken\<lparr>index := map int [0..<length idx]\<rparr>),
             next_addr := Suc (Suc (Suc na)), rng := (\<lambda>k. rng w (len df + k))\<rparr>"
    by (simp add: w5_def w4_def w3_eq ranked_def)
  have final_eq: "final = \<lparr>index = map int [0..<length idx],
                     cols = (''Rank'', map IntCell [1..int (length idx)]) # cols taken\<rparr>"
    by (simp add: final_def ranked_def)
  have w6_eq: "w5\<lparr>objects := (objects w5)(Suc (Suc na) := final)\<rparr> =
      w\<lparr>objects := (objects w)(na := scored, Suc na := taken, Suc (Suc na) := final),
             next_addr := Suc (Suc (Suc na)), rng := (\<lambda>k. rng w (len df + k))\<rparr>"
    by (simp add: w5_eq)
  show ?thesis
    unfolding create_dummy_recommendations_with_scores_def copy prod.case obj1 draw vs set
      sum.case sort
    by (simp add: reset obj5 lr ins w3_eq [symmetric] w5_eq [symmetric] w6_eq [symmetric] final_eq [symmetric])
qed

lemma returned_frame_eq:
  "returned_frame argsort_desc a w =
     (let df = objects w a;
          vals = map (\<lambda>i. FloatCell (score_of (rng w i))) [0..<len df];
          idx = argsort_desc vals
      in if \<not> list_all (\<lambda>i. i < len df) idx then Inl IndexError
         else if ''Rank'' \<in> set (column_names df)
         then Inl (ValueError ''cannot insert Rank, already exists'')
         else Inr \<lparr>index = map int [0..<length idx],
                   cols = (''Rank'', map IntCell [1..int (length idx)]) #
                     map (\<lambda>(name, vs). (name, map (\<lambda>i. vs ! i) idx))
                       (AList.update ''Match Score'' vals (cols df))\<rparr>)"
  unfolding returned_frame_def create_dummy_run Let_def
  by simp

lemma map_of_take:
  "map_of (map (\<lambda>(name, vs). (name, map (\<lambda>i. vs ! i) idx)) al) k
     = map_option (\<lambda>vs. map (\<lambda>i. vs ! i) idx) (map_of al k)"
  by (induction al) auto

text \<open>The columns of a frame that the step returns.\<close>

lemma returned_columns:
  assumes "returned_frame argsort_desc a w = Inr out"
  defines "df \<equiv> objects w a"
  defines "idx \<equiv> argsort_desc (map (\<lambda>i. FloatCell (score_of (rng w i))) [0..<len df])"
  shows "list_all (\<lambda>i. i < len df) idx"
    and "''Rank'' \<notin> set (column_names df)"
    and "index out = map int [0..<length idx]"
    and "map_of (cols out) ''Rank'' = Some (map IntCell [1..int (length idx)])"
    and "map_of (cols out) ''Match Score'' = Some (map (\<lambda>i. FloatCell (score_of (rng w i))) idx)"
    and "\<And>name vs. name \<noteq> ''Match Score'' \<Longrightarrow> map_of (cols df) name = Some vs
           \<Longrightarrow> map_of (cols out) name = Some (map (\<lambda>i. vs ! i) idx)"
    and "column_names out = ''Rank'' # map fst (AList.update ''Match Score''
           (map (\<lambda>i. FloatCell (score_of (rng w i))) [0..<len df]) (cols df))"
proof -
  let ?vals = "map (\<lambda>i. FloatCell (score_of (rng w i))) [0..<len df]"
  from assms(1) have ok: "list_all (\<lambda>i. i < len df) idx"
    and rank: "''Rank'' \<notin> set (column_names df)"
    and out: "out = \<lparr>index = map int [0..<length idx],
                   cols = (''Rank'', map IntCell [1..int (length idx)]) #
                     map (\<lambda>(name, vs). (name, map (\<lambda>i. vs ! i) idx))
                       (AList.update ''Match Score'' ?vals (cols df))\<rparr>"
    unfolding returned_frame_eq Let_def df_def idx_def
    by (simp_all split: if_splits)
  show "list_all (\<lambda>i. i < len df) idx" by (rule ok)
  show "''Rank'' \<notin> set (column_names df)" by (rule rank)
  show "index out = map int [0..<length idx]" by (simp add: out)
  show "map_of (cols out) ''Rank'' = Some (map IntCell [1..int (length idx)])"
    by (simp add: out)
  have "map (\<lambda>i. ?vals ! i) idx = map (\<lambda>i. FloatCell (score_of (rng w i))) idx"
    using ok by (simp add: list_all_iff)
  then show "map_of (cols out) ''Match Score'' = Some (map (\<lambda>i. FloatCell (score_of (rng w i))) idx)"
    by (simp add: out map_of_take map_of_scores)
  show "map_of (cols out) name = Some (map (\<lambda>i. vs ! i) idx)"
    if "name \<noteq> ''Match Score''" and "map_of (cols df) name = Some vs" for name vs
  proof -
    from that(2) have "name \<in> set (column_names df)"
      by (metis column_names_def map_of_eq_None_iff option.distinct(1) set_map)
    with rank have "name \<noteq> ''Rank''" by auto
    with that show ?thesis
      by (simp add: out map_of_take update_conv')
  qed
  show "column_names out = ''Rank'' # map fst (AList.update ''Match Score'' ?vals (cols df))"
    by (simp add: out column_names_def case_prod_unfold comp_def)
qed

section \<open>The two indexers\<close>

lemma descending_stable_argsort: "descending_indexer stable_argsort_desc"
  unfolding descending_indexer_def
proof (intro allI conjI)
  fix keys :: "rat list"
  let ?g = "\<lambda>i. - cell_key (map FloatCell keys ! i)"
  let ?idx = "stable_argsort_desc (map FloatCell keys)"
  show "mset ?idx = mset [0..<length keys]"
    by (simp add: stable_argsort_desc_def)
  have "sorted (map ?g ?idx)"
    by (simp add: stable_argsort_desc_def)
  then have "sorted_wrt (\<lambda>i j. ?g i \<le> ?g j) ?idx"
    by (simp add: sorted_map)
  moreover have "set ?idx = {0..<length keys}"
    by (simp add: stable_argsort_desc_def)
  ultimately show "sorted_wrt (\<lambda>i j. keys ! j \<le> keys ! i) ?idx"
    by (rule_tac sorted_wrt_mono_rel [where P = "\<lambda>i j. ?g i \<le> ?g j"]) auto
qed

lemma descending_reversed_argsort: "descending_indexer reversed_argsort"
  unfolding descending_indexer_def
proof (intro allI conjI)
  fix keys :: "rat list"
  let ?g = "\<lambda>i. cell_key (map FloatCell keys ! i)"
  let ?asc = "sort_key ?g [0..<length keys]"
  have idx: "reversed_argsort (map FloatCell keys) = rev ?asc"
    by (simp add: reversed_argsort_def)
  show "mset (reversed_argsort (map FloatCell keys)) = mset [0..<length keys]"
    by (simp add: idx)
  have "sorted (map ?g ?asc)"
    by simp
  then have "sorted_wrt (\<lambda>i j. ?g i \<le> ?g j) ?asc"
    by (simp add: sorted_map)
  moreover have "set ?asc = {0..<length keys}"
    by simp
  ultimately have "sorted_wrt (\<lambda>i j. keys ! i \<le> keys ! j) ?asc"
    by (rule_tac sorted_wrt_mono_rel [where P = "\<lambda>i j. ?g i \<le> ?g j"]) auto
  then show "sorted_wrt (\<lambda>i j. keys ! j \<le> keys ! i) (reversed_argsort (map FloatCell keys))"
    by (simp add: idx sorted_wrt_rev)
qed

lemma descending_indexer_perm:
  assumes "descending_indexer f"
  shows "mset (f (map (\<lambda>i. FloatCell (g i)) [0..<n])) = mset [0..<n]"
    and "length (f (map (\<lambda>i. FloatCell (g i)) [0..<n])) = n"
    and "list_all (\<lambda>i. i < n) (f (map (\<lambda>i. FloatCell (g i)) [0..<n]))"
    and "sorted_wrt (\<lambda>i j. g j \<le> g i) (f (map (\<lambda>i. FloatCell (g i)) [0..<n]))"
proof -
  let ?keys = "map g [0..<n]"
  let ?idx = "f (map (\<lambda>i. FloatCell (g i)) [0..<n])"
  have eq: "map (\<lambda>i. FloatCell (g i)) [0..<n] = map FloatCell ?keys"
    by simp
  from assms have m: "mset ?idx = mset [0..<n]"
    and s: "sorted_wrt (\<lambda>i j. ?keys ! j \<le> ?keys ! i) ?idx"
    unfolding descending_indexer_def eq
    by (metis length_map length_upt minus_nat.diff_0)+
  show "mset ?idx = mset [0..<n]" by (rule m)
  from m show "length ?idx = n"
    by (metis length_upt minus_nat.diff_0 size_mset)
  from m have set: "set ?idx = {0..<n}"
    by (metis set_mset_mset set_upt)
  then show "list_all (\<lambda>i. i < n) ?idx"
    by (auto simp add: list_all_iff)
  from s set show "sorted_wrt (\<lambda>i j. g j \<le> g i) ?idx"
    by (rule_tac sorted_wrt_mono_rel [where P = "\<lambda>i j. ?keys ! j \<le> ?keys ! i"]) auto
qed

lemma returned_frame_cong:
  assumes "objects w a = objects w' a'" and "rng w = rng w'"
  shows "returned_frame f a w = returned_frame f a' w'"
  by (simp add: returned_frame_eq assms)

text \<open>The step writes to three new objects only.\<close>

lemma source_dataset_unchanged:
  assumes "a < next_addr w"
  shows "objects (snd (create_dummy_recommendations_with_scores f a w)) a = objects w a"
  using assms unfolding create_dummy_run by simp

text \<open>Step 4 in closed form: the page shows what one run on the sheet yields from the
  current state of the generator.\<close>

lemma handle_recommendations_page:
  "fst (handle_recommendations f button s w) =
     (case uploaded_file s of
        None \<Rightarrow> Warning (''Please complete these steps first: '' @ join '', ''
          ([''Upload file (Step 1)''] @
           (if preferences s = None then [''Set preferences (Step 2)''] else []) @
           (if weights s = None then [''Configure weights (Step 3)''] else [])))
      | Some file \<Rightarrow>
          if preferences s = None \<or> weights s = None
          then Warning (''Please complete these steps first: '' @ join '', ''
            ((if preferences s = None then [''Set preferences (Step 2)''] else []) @
             (if weights s = None then [''Configure weights (Step 3)''] else [])))
          else if \<not> button then Shown None
          else (case map_of file ''Master Sailings Grid'' of
                  None \<Rightarrow> Raised (ValueError ''Worksheet named Master Sailings Grid not found'')
                | Some df \<Rightarrow>
                    (case returned_frame f 0 (one_frame_world df (rng w)) of
                       Inl e \<Rightarrow> Raised e
                     | Inr out \<Rightarrow>
                         (case display_full_results out [] [] 70 of
                            Inl e \<Rightarrow> Raised e
                          | Inr shown \<Rightarrow>
                              Shown (Some [(''Master Sailings Grid'', df),
                                           (''Sailing Recommendations'', out)])))))"
proof (cases "uploaded_file s")
  case None
  then show ?thesis
    by (simp add: handle_recommendations_def Let_def split: list.splits)
next
  case (Some sheets)
  show ?thesis
  proof (cases "preferences s = None \<or> weights s = None")
    case True
    with Some show ?thesis
      by (auto simp add: handle_recommendations_def Let_def)
  next
    case False
    then have complete: "preferences s \<noteq> None" "weights s \<noteq> None" by simp_all
    show ?thesis
    proof (cases "map_of sheets ''Master Sailings Grid''")
      case None
      with Some complete show ?thesis
        by (simp add: handle_recommendations_def Let_def read_excel_def)
    next
      case (Some df)
      define w1 where "w1 = snd (alloc df w)"
      have read: "read_excel sheets ''Master Sailings Grid'' w = (Inr (next_addr w), w1)"
        by (simp add: read_excel_def Some alloc_def w1_def)
      have obj: "objects w1 (next_addr w) = df" and r: "rng w1 = rng w"
        and lt: "next_addr w < next_addr w1"
        by (simp_all add: w1_def alloc_def)
      have same: "returned_frame f (next_addr w) w1 = returned_frame f 0 (one_frame_world df (rng w))"
        by (rule returned_frame_cong) (simp_all add: obj r one_frame_world_def)
      have keep: "objects (snd (create_dummy_recommendations_with_scores f (next_addr w) w1)) (next_addr w) = df"
        using source_dataset_unchanged [OF lt] obj by simp
      have "fst (case create_dummy_recommendations_with_scores f (next_addr w) w1 of
           (Inl e, w2) \<Rightarrow> (Raised e, w2)
         | (Inr recommendations_df, w2) \<Rightarrow>
             (case display_full_results (objects w2 recommendations_df) [] [] 70 of
                Inl e \<Rightarrow> (Raised e, w2)
              | Inr shown \<Rightarrow>
                  (Shown (Some [(''Master Sailings Grid'', objects w2 (next_addr w)),
                                (''Sailing Recommendations'', objects w2 recommendations_df)]),
                   w2)))
        = (case returned_frame f (next_addr w) w1 of
             Inl e \<Rightarrow> Raised e
           | Inr out \<Rightarrow>
               (case display_full_results out [] [] 70 of
                  Inl e \<Rightarrow> Raised e
                | Inr shown \<Rightarrow> Shown (Some [(''Master Sailings Grid'', df),
                                             (''Sailing Recommendations'', out)])))"
        using keep unfolding returned_frame_def
        by (auto split: prod.splits sum.splits)
      then have "fst (case create_dummy_recommendations_with_scores f (next_addr w) w1 of
           (Inl e, w2) \<Rightarrow> (Raised e, w2)
         | (Inr recommendations_df, w2) \<Rightarrow>
             (case display_full_results (objects w2 recommendations_df) [] [] 70 of
                Inl e \<Rightarrow> (Raised e, w2)
              | Inr shown \<Rightarrow>
                  (Shown (Some [(''Master Sailings Grid'', objects w2 (next_addr w)),
                                (''Sailing Recommendations'', objects w2 recommendations_df)]),
                   w2)))
        = (case returned_frame f 0 (one_frame_world df (rng w)) of
             Inl e \<Rightarrow> Raised e
           | Inr out \<Rightarrow>
               (case display_full_results out [] [] 70 of
                  Inl e \<Rightarrow> Raised e
                | Inr shown \<Rightarrow> Shown (Some [(''Master Sailings Grid'', df),
                                             (''Sailing Recommendations'', out)])))"
        by (simp only: same)
      moreover from complete obtain p c where "preferences s = Some p" and "weights s = Some c"
        by auto
      ultimately show ?thesis
        using \<open>uploaded_file s = Some sheets\<close> Some read
        by (cases button) (simp_all add: handle_recommendations_def Let_def)
    qed
  qed
qed

section \<open>The weight normaliser\<close>

lemma py_truediv_unit:
  assumes "a \<le> t" and "0 < t"
  shows "py_truediv (int a) (int t) = Inr (double_of (of_nat a / of_nat t))"
    and "0 \<le> double_of (of_nat a / of_nat t)"
    and "double_of (of_nat a / of_nat t) \<le> 1"
    and "\<bar>double_of (of_nat a / of_nat t) - of_nat a / of_nat t\<bar> \<le> (of_nat a / of_nat t) / 2 ^ 53"
proof -
  let ?q = "of_nat a / of_nat t :: rat"
  from assms have q0: "0 \<le> ?q" and q1: "?q \<le> 1"
    by (simp_all add: divide_le_eq_1)
  show "py_truediv (int a) (int t) = Inr (double_of ?q)"
    using assms by (simp add: py_truediv_def)
  have "of_int 0 \<le> ?q" and "?q \<le> of_int 1" and "?q < 2 ^ 53"
    using q0 q1 by simp_all
  from double_of_int_bounds [OF this(1) this(2) q0 this(3)]
  show "0 \<le> double_of ?q" and "double_of ?q \<le> 1"
    by simp_all
  show "\<bar>double_of ?q - ?q\<bar> \<le> ?q / 2 ^ 53"
    by (rule double_of_rel_error [OF q0])
qed

text \<open>
  C4. Whenever at least one of the four raw weights is positive, the normaliser returns
  four floats, each the quotient of a raw weight by the sum of the four (the correctly
  rounded float quotient), each between 0 and 1, and their exact sum differs from 1 by at
  most \<open>10\<^sup>-\<^sup>9\<close>.
\<close>

theorem normalized_weights_distribution:
  assumes "0 < ship w \<or> 0 < month w \<or> 0 < port w \<or> 0 < theo w"
  shows "\<exists>n. normalized_weights w = Inr n
    \<and> ship n = double_of (of_nat (ship w) / of_nat (ship w + month w + port w + theo w))
    \<and> month n = double_of (of_nat (month w) / of_nat (ship w + month w + port w + theo w))
    \<and> port n = double_of (of_nat (port w) / of_nat (ship w + month w + port w + theo w))
    \<and> theo n = double_of (of_nat (theo w) / of_nat (ship w + month w + port w + theo w))
    \<and> 0 \<le> ship n \<and> ship n \<le> 1 \<and> 0 \<le> month n \<and> month n \<le> 1
    \<and> 0 \<le> port n \<and> port n \<le> 1 \<and> 0 \<le> theo n \<and> theo n \<le> 1
    \<and> \<bar>ship n + month n + port n + theo n - 1\<bar> \<le> 1 / 10 ^ 9"
proof -
  define t where "t = ship w + month w + port w + theo w"
  from assms have t: "0 < t" by (auto simp add: t_def)
  have le: "ship w \<le> t" "month w \<le> t" "port w \<le> t" "theo w \<le> t"
    by (simp_all add: t_def)
  let ?q = "\<lambda>a. of_nat a / of_nat t :: rat"
  let ?n = "\<lparr>ship = double_of (?q (ship w)), month = double_of (?q (month w)),
             port = double_of (?q (port w)), theo = double_of (?q (theo w))\<rparr>"
  have tot: "int (ship w) + int (month w) + int (port w) + int (theo w) = int t"
    by (simp add: t_def)
  have run: "normalized_weights w = Inr ?n"
    unfolding normalized_weights_def tot Let_def
    by (simp add: py_truediv_unit(1) [OF le(1) t] py_truediv_unit(1) [OF le(2) t]
        py_truediv_unit(1) [OF le(3) t] py_truediv_unit(1) [OF le(4) t])
  have one: "?q (ship w) + ?q (month w) + ?q (port w) + ?q (theo w) = 1"
    using t by (simp add: t_def flip: add_divide_distrib of_nat_add)
  have "\<bar>ship ?n + month ?n + port ?n + theo ?n - 1\<bar>
      = \<bar>(double_of (?q (ship w)) - ?q (ship w)) + (double_of (?q (month w)) - ?q (month w))
        + (double_of (?q (port w)) - ?q (port w)) + (double_of (?q (theo w)) - ?q (theo w))\<bar>"
    using one by (simp add: algebra_simps)
  also have "\<dots> \<le> ?q (ship w) / 2 ^ 53 + ?q (month w) / 2 ^ 53
      + ?q (port w) / 2 ^ 53 + ?q (theo w) / 2 ^ 53"
    using py_truediv_unit(4) [OF le(1) t] py_truediv_unit(4) [OF le(2) t]
      py_truediv_unit(4) [OF le(3) t] py_truediv_unit(4) [OF le(4) t]
    by linarith
  also have "\<dots> = 1 / 2 ^ 53"
    using one by (simp flip: add_divide_distrib)
  also have "\<dots> \<le> 1 / 10 ^ 9"
    by simp
  finally have sum: "\<bar>ship ?n + month ?n + port ?n + theo ?n - 1\<bar> \<le> 1 / 10 ^ 9" .
  show ?thesis
    apply (rule exI [of _ ?n])
    using run sum py_truediv_unit(2,3) [OF le(1) t] py_truediv_unit(2,3) [OF le(2) t]
      py_truediv_unit(2,3) [OF le(3) t] py_truediv_unit(2,3) [OF le(4) t]
    by (simp add: t_def)
qed

theorem normalized_weights_distribution_witness:
  "normalized_weights \<lparr>ship = 3, month = 3, port = 3, theo = 1\<rparr>
     = Inr \<lparr>ship = 5404319552844595 / 18014398509481984,
            month = 5404319552844595 / 18014398509481984,
            port = 5404319552844595 / 18014398509481984,
            theo = 3602879701896397 / 36028797018963968\<rparr>
   \<and> \<bar>5404319552844595 / 18014398509481984 + 5404319552844595 / 18014398509481984
      + 5404319552844595 / 18014398509481984 + 3602879701896397 / 36028797018963968 - 1\<bar>
     \<le> (1 / 10 ^ 9 :: rat)"
proof -
  have ev: "normalized_weights \<lparr>ship = 3, month = 3, port = 3, theo = 1\<rparr>
     = Inr \<lparr>ship = 5404319552844595 / 18014398509481984,
            month = 5404319552844595 / 18014398509481984,
            port = 5404319552844595 / 18014398509481984,
            theo = 3602879701896397 / 36028797018963968\<rparr>"
    by code_simp
  from normalized_weights_distribution [of "\<lparr>ship = 3, month = 3, port = 3, theo = 1\<rparr>"]
  obtain n where "normalized_weights \<lparr>ship = 3, month = 3, port = 3, theo = 1\<rparr> = Inr n"
    and "\<bar>ship n + month n + port n + theo n - 1\<bar> \<le> 1 / 10 ^ 9"
    by auto
  with ev show ?thesis by auto
qed

section \<open>Evaluation at concrete inputs\<close>

lemma score_of_0: "score_of 0 = 65"
  by code_simp

lemma score_of_half: "score_of 4503599627370496 = 80"
  by code_simp

lemma upt_1: "[0..<1] = [0]" and upt_2: "[0..<2] = [0, 1]" and upt_3: "[0..<3] = [0, 1, 2]"
  and upt_4: "[0..<4] = [0, 1, 2, 3]"
  by (simp_all add: upt_rec)

lemmas run_simps = one_frame_world_def len_def column_names_def stable_argsort_desc_def
  reversed_argsort_def upt_1 upt_2 upt_3 upt_4 upto.simps score_of_0 score_of_half

section \<open>The recommendations\<close>

text \<open>
  C9. Every Match Score that line 444 computes lies in the closed interval from 65 to 95
  and is the float nearest to a whole number of hundredths; so does every Match Score
  of a frame that the recommendation step returns, whatever the data, the sort routine
  and the state of the generator.
\<close>

theorem match_score_range:
  "list_all (\<lambda>x. 65 \<le> x \<and> x \<le> 95 \<and> (\<exists>j. x = double_of (of_int j / 100)))
     (fst (match_scores n w))
   \<and> (returned_frame argsort_desc a w = Inr out \<longrightarrow>
        (\<exists>xs. map_of (cols out) ''Match Score'' = Some (map FloatCell xs)
           \<and> list_all (\<lambda>x. 65 \<le> x \<and> x \<le> 95 \<and> (\<exists>j. x = double_of (of_int j / 100))) xs))"
proof (intro conjI impI)
  have one: "65 \<le> score_of k \<and> score_of k \<le> 95 \<and> (\<exists>j. score_of k = double_of (of_int j / 100))" for k
    using score_of_range [of k] score_of_cents [of k] by blast
  show "list_all (\<lambda>x. 65 \<le> x \<and> x \<le> 95 \<and> (\<exists>j. x = double_of (of_int j / 100)))
     (fst (match_scores n w))"
    using one by (simp add: match_scores_eq list_all_iff)
  assume "returned_frame argsort_desc a w = Inr out"
  from returned_columns(5) [OF this]
  obtain idx where "map_of (cols out) ''Match Score'' = Some (map FloatCell (map (\<lambda>i. score_of (rng w i)) idx))"
    by (simp add: comp_def)
  moreover have "list_all (\<lambda>x. 65 \<le> x \<and> x \<le> 95 \<and> (\<exists>j. x = double_of (of_int j / 100)))
      (map (\<lambda>i. score_of (rng w i)) idx)"
    using one by (simp add: list_all_iff)
  ultimately show "\<exists>xs. map_of (cols out) ''Match Score'' = Some (map FloatCell xs)
           \<and> list_all (\<lambda>x. 65 \<le> x \<and> x \<le> 95 \<and> (\<exists>j. x = double_of (of_int j / 100))) xs"
    by blast
qed

theorem match_score_range_witness:
  "returned_frame stable_argsort_desc 0
     (one_frame_world \<lparr>index = [0, 1], cols = [(''Ship Code'', [StrCell ''IC'', StrCell ''WN''])]\<rparr>
        (\<lambda>n. if n = 1 then 4503599627370496 else 0))
   = Inr \<lparr>index = [0, 1],
          cols = [(''Rank'', [IntCell 1, IntCell 2]),
                  (''Ship Code'', [StrCell ''WN'', StrCell ''IC'']),
                  (''Match Score'', [FloatCell 80, FloatCell 65])]\<rparr>
   \<and> (\<exists>xs. map_of [(''Rank'', [IntCell 1, IntCell 2]),
                  (''Ship Code'', [StrCell ''WN'', StrCell ''IC'']),
                  (''Match Score'', [FloatCell 80, FloatCell 65])] ''Match Score'' = Some (map FloatCell xs)
        \<and> list_all (\<lambda>x. 65 \<le> x \<and> x \<le> 95 \<and> (\<exists>j. x = double_of (of_int j / 100))) xs)"
proof -
  let ?w = "one_frame_world \<lparr>index = [0, 1], cols = [(''Ship Code'', [StrCell ''IC'', StrCell ''WN''])]\<rparr>
        (\<lambda>n. if n = 1 then 4503599627370496 else 0)"
  let ?out = "\<lparr>index = [0, 1],
          cols = [(''Rank'', [IntCell 1, IntCell 2]),
                  (''Ship Code'', [StrCell ''WN'', StrCell ''IC'']),
                  (''Match Score'', [FloatCell 80, FloatCell 65])]\<rparr>"
  have run: "returned_frame stable_argsort_desc 0 ?w = Inr ?out"
    unfolding returned_frame_eq by (simp add: run_simps)
  from match_score_range [of 0 ?w stable_argsort_desc 0 ?out] run
  show ?thesis by simp
qed


text \<open>
  C3, as amended. With any indexer of a descending sort, the frame that the step returns
  has its Match Scores in descending order, they are the scores drawn for the input rows,
  rearranged, there is one row per input row, and the Rank column counts the rows from 1.
  Nothing is said of the order of rows with equal scores: the sort is not asked to be
  stable.
\<close>

theorem sorted_descending_and_ranked:
  assumes "descending_indexer argsort_desc"
    and "returned_frame argsort_desc a w = Inr out"
  shows "\<exists>xs. map_of (cols out) ''Match Score'' = Some (map FloatCell xs)
    \<and> sorted_wrt (\<lambda>x y. y \<le> x) xs
    \<and> mset xs = mset (fst (match_scores (len (objects w a)) w))
    \<and> len out = len (objects w a)
    \<and> map_of (cols out) ''Rank'' = Some (map IntCell [1..int (len (objects w a))])"
proof -
  define n where "n = len (objects w a)"
  define idx where "idx = argsort_desc (map (\<lambda>i. FloatCell (score_of (rng w i))) [0..<n])"
  let ?xs = "map (\<lambda>i. score_of (rng w i)) idx"
  note perm = descending_indexer_perm [OF assms(1), where g = "\<lambda>i. score_of (rng w i)" and n = n,
      folded idx_def]
  note cols = returned_columns [OF assms(2), folded n_def, folded idx_def]
  have "map_of (cols out) ''Match Score'' = Some (map FloatCell ?xs)"
    using cols(5) by (simp add: comp_def)
  moreover have "sorted_wrt (\<lambda>x y. y \<le> x) ?xs"
    using perm(4) by (simp add: sorted_wrt_map)
  moreover have "mset ?xs = mset (fst (match_scores n w))"
  proof -
    have "mset ?xs = image_mset (\<lambda>i. score_of (rng w i)) (mset idx)"
      by (simp only: mset_map)
    also have "\<dots> = image_mset (\<lambda>i. score_of (rng w i)) (mset [0..<n])"
      by (simp only: perm(1))
    also have "\<dots> = mset (fst (match_scores n w))"
      by (simp only: match_scores_eq fst_conv mset_map)
    finally show ?thesis .
  qed
  moreover have "len out = n"
    using cols(3) perm(2) by (simp add: len_def)
  moreover have "map_of (cols out) ''Rank'' = Some (map IntCell [1..int n])"
    using cols(4) perm(2) by simp
  ultimately show ?thesis
    unfolding n_def by blast
qed

theorem sorted_descending_and_ranked_witness:
  "descending_indexer stable_argsort_desc
   \<and> returned_frame stable_argsort_desc 0
     (one_frame_world \<lparr>index = [0, 1, 2],
         cols = [(''Ship Code'', [StrCell ''IC'', StrCell ''WN'', StrCell ''AL''])]\<rparr>
        (\<lambda>n. if n = 1 then 4503599627370496 else 0))
   = Inr \<lparr>index = [0, 1, 2],
          cols = [(''Rank'', [IntCell 1, IntCell 2, IntCell 3]),
                  (''Ship Code'', [StrCell ''WN'', StrCell ''IC'', StrCell ''AL'']),
                  (''Match Score'', [FloatCell 80, FloatCell 65, FloatCell 65])]\<rparr>
   \<and> (\<exists>xs. [FloatCell 80, FloatCell 65, FloatCell 65] = map FloatCell xs
        \<and> sorted_wrt (\<lambda>x y. y \<le> x) xs \<and> mset xs = mset [65, 80, 65])"
proof -
  let ?df = "\<lparr>index = [0, 1, 2],
         cols = [(''Ship Code'', [StrCell ''IC'', StrCell ''WN'', StrCell ''AL''])]\<rparr>"
  let ?w = "one_frame_world ?df (\<lambda>n. if n = 1 then 4503599627370496 else 0)"
  let ?out = "\<lparr>index = [0, 1, 2],
          cols = [(''Rank'', [IntCell 1, IntCell 2, IntCell 3]),
                  (''Ship Code'', [StrCell ''WN'', StrCell ''IC'', StrCell ''AL'']),
                  (''Match Score'', [FloatCell 80, FloatCell 65, FloatCell 65])]\<rparr>"
  have run: "returned_frame stable_argsort_desc 0 ?w = Inr ?out"
    unfolding returned_frame_eq by (simp add: run_simps)
  have drawn: "fst (match_scores (len (objects ?w 0)) ?w) = [65, 80, 65]"
    by (simp add: match_scores_eq run_simps)
  have col: "map_of (cols ?out) ''Match Score'' = Some [FloatCell 80, FloatCell 65, FloatCell 65]"
    by simp
  from sorted_descending_and_ranked [OF descending_stable_argsort run]
  obtain xs where "map_of (cols ?out) ''Match Score'' = Some (map FloatCell xs)"
    and "sorted_wrt (\<lambda>x y. y \<le> x) xs"
    and "mset xs = mset (fst (match_scores (len (objects ?w 0)) ?w))"
    by blast
  then have "[FloatCell 80, FloatCell 65, FloatCell 65] = map FloatCell xs
      \<and> sorted_wrt (\<lambda>x y. y \<le> x) xs \<and> mset xs = mset [65, 80, 65]"
    unfolding drawn col by simp
  then have "\<exists>xs. [FloatCell 80, FloatCell 65, FloatCell 65] = map FloatCell xs
      \<and> sorted_wrt (\<lambda>x y. y \<le> x) xs \<and> mset xs = mset [65, 80, 65]" ..
  with descending_stable_argsort run show ?thesis by (intro conjI)
qed

text \<open>
  C3 as stated fails: a sort that is descending but not stable is within what the call
  asks for. On four rows with the scores 65, 65, 80, 80, \<open>reversed_argsort\<close> orders the
  rows 3, 2, 1, 0: the two rows of score 80 come out in the opposite of their input order,
  and so do the two rows of score 65.
\<close>

theorem stable_sort_counterexample:
  "descending_indexer reversed_argsort
   \<and> returned_frame reversed_argsort 0
     (one_frame_world
        \<lparr>index = [0, 1, 2, 3],
         cols = [(''Ship Code'', [StrCell ''IC'', StrCell ''WN'', StrCell ''AL'', StrCell ''OV''])]\<rparr>
        (\<lambda>n. if n < 2 then 0 else 4503599627370496))
   = Inr \<lparr>index = [0, 1, 2, 3],
          cols = [(''Rank'', [IntCell 1, IntCell 2, IntCell 3, IntCell 4]),
                  (''Ship Code'', [StrCell ''OV'', StrCell ''AL'', StrCell ''WN'', StrCell ''IC'']),
                  (''Match Score'', [FloatCell 80, FloatCell 80, FloatCell 65, FloatCell 65])]\<rparr>
   \<and> fst (match_scores 4
        (one_frame_world
           \<lparr>index = [0, 1, 2, 3],
            cols = [(''Ship Code'', [StrCell ''IC'', StrCell ''WN'', StrCell ''AL'', StrCell ''OV''])]\<rparr>
           (\<lambda>n. if n < 2 then 0 else 4503599627370496)))
     = [65, 65, 80, 80]"
proof (intro conjI)
  show "descending_indexer reversed_argsort"
    by (rule descending_reversed_argsort)
  show "returned_frame reversed_argsort 0
     (one_frame_world
        \<lparr>index = [0, 1, 2, 3],
         cols = [(''Ship Code'', [StrCell ''IC'', StrCell ''WN'', StrCell ''AL'', StrCell ''OV''])]\<rparr>
        (\<lambda>n. if n < 2 then 0 else 4503599627370496))
   = Inr \<lparr>index = [0, 1, 2, 3],
          cols = [(''Rank'', [IntCell 1, IntCell 2, IntCell 3, IntCell 4]),
                  (''Ship Code'', [StrCell ''OV'', StrCell ''AL'', StrCell ''WN'', StrCell ''IC'']),
                  (''Match Score'', [FloatCell 80, FloatCell 80, FloatCell 65, FloatCell 65])]\<rparr>"
    unfolding returned_frame_eq by (simp add: run_simps)
  show "fst (match_scores 4
        (one_frame_world
           \<lparr>index = [0, 1, 2, 3],
            cols = [(''Ship Code'', [StrCell ''IC'', StrCell ''WN'', StrCell ''AL'', StrCell ''OV''])]\<rparr>
           (\<lambda>n. if n < 2 then 0 else 4503599627370496)))
     = [65, 65, 80, 80]"
    by (simp add: match_scores_eq run_simps)
qed

section \<open>Reruns\<close>

text \<open>
  C1, as amended. What step 4 shows is a function of the uploaded file, of the button and
  of the state of the random generator: two runs on the same file from the same state
  of the generator show the same page, whatever the preferences, the weights (once both
  are set) and the rest of the memory. Without the same state of the generator the
  outputs differ, see the counterexample.
\<close>

theorem same_generator_same_output:
  assumes "uploaded_file s = uploaded_file s'"
    and "preferences s \<noteq> None" and "preferences s' \<noteq> None"
    and "weights s \<noteq> None" and "weights s' \<noteq> None"
    and "rng w = rng w'"
  shows "fst (handle_recommendations argsort_desc button s w)
       = fst (handle_recommendations argsort_desc button s' w')"
proof -
  from assms obtain p p' c c' where "preferences s = Some p" and "preferences s' = Some p'"
    and "weights s = Some c" and "weights s' = Some c'"
    by auto
  with assms(1) show ?thesis
    unfolding handle_recommendations_page assms(6) by (cases "uploaded_file s'") simp_all
qed

lemma rerun_example:
  defines "df \<equiv> \<lparr>index = [0], cols = [(''Ship Code'', [StrCell ''IC''])]\<rparr>"
  defines "w \<equiv> one_frame_world df (\<lambda>n. if n = 0 then 0 else 4503599627370496)"
  defines "w' \<equiv> snd (create_dummy_recommendations_with_scores stable_argsort_desc 0 w)"
  shows "objects w' 0 = df" and "rng w' = (\<lambda>n. 4503599627370496)"
proof -
  show "objects w' 0 = df"
    unfolding w'_def create_dummy_run by (simp add: w_def one_frame_world_def)
  show "rng w' = (\<lambda>n. 4503599627370496)"
    unfolding w'_def create_dummy_run by (simp add: w_def df_def one_frame_world_def len_def)
qed

text \<open>
  C1 as stated fails: the generator is hidden state. Two runs in a row on the same frame,
  the second starting from the generator as the first left it, return different scores.
\<close>

theorem rerun_counterexample:
  "returned_frame stable_argsort_desc 0
     (one_frame_world \<lparr>index = [0], cols = [(''Ship Code'', [StrCell ''IC''])]\<rparr>
        (\<lambda>n. if n = 0 then 0 else 4503599627370496))
   = Inr \<lparr>index = [0], cols = [(''Rank'', [IntCell 1]), (''Ship Code'', [StrCell ''IC'']),
                                (''Match Score'', [FloatCell 65])]\<rparr>
   \<and> returned_frame stable_argsort_desc 0
     (snd (create_dummy_recommendations_with_scores stable_argsort_desc 0
        (one_frame_world \<lparr>index = [0], cols = [(''Ship Code'', [StrCell ''IC''])]\<rparr>
           (\<lambda>n. if n = 0 then 0 else 4503599627370496))))
   = Inr \<lparr>index = [0], cols = [(''Rank'', [IntCell 1]), (''Ship Code'', [StrCell ''IC'']),
                                (''Match Score'', [FloatCell 80])]\<rparr>"
proof (intro conjI)
  show "returned_frame stable_argsort_desc 0
     (one_frame_world \<lparr>index = [0], cols = [(''Ship Code'', [StrCell ''IC''])]\<rparr>
        (\<lambda>n. if n = 0 then 0 else 4503599627370496))
   = Inr \<lparr>index = [0], cols = [(''Rank'', [IntCell 1]), (''Ship Code'', [StrCell ''IC'']),
                                (''Match Score'', [FloatCell 65])]\<rparr>"
    unfolding returned_frame_eq by (simp add: run_simps)
  show "returned_frame stable_argsort_desc 0
     (snd (create_dummy_recommendations_with_scores stable_argsort_desc 0
        (one_frame_world \<lparr>index = [0], cols = [(''Ship Code'', [StrCell ''IC''])]\<rparr>
           (\<lambda>n. if n = 0 then 0 else 4503599627370496))))
   = Inr \<lparr>index = [0], cols = [(''Rank'', [IntCell 1]), (''Ship Code'', [StrCell ''IC'']),
                                (''Match Score'', [FloatCell 80])]\<rparr>"
    unfolding returned_frame_eq rerun_example by (simp add: run_simps)
qed

theorem same_generator_same_output_witness:
  "fst (handle_recommendations stable_argsort_desc True
     \<lparr>uploaded_file = Some [(''Master Sailings Grid'',
          \<lparr>index = [0], cols = [(''Ship Code'', [StrCell ''IC''])]\<rparr>)],
      preferences = Some \<lparr>ships = [''IC''], months = [], ports = []\<rparr>,
      weights = Some \<lparr>raw = \<lparr>ship = 1, month = 0, port = 0, theo = 0\<rparr>,
                      normalized = \<lparr>ship = 1, month = 0, port = 0, theo = 0\<rparr>\<rparr>\<rparr>
     (one_frame_world \<lparr>index = [], cols = []\<rparr> (\<lambda>n. 0)))
   = fst (handle_recommendations stable_argsort_desc True
     \<lparr>uploaded_file = Some [(''Master Sailings Grid'',
          \<lparr>index = [0], cols = [(''Ship Code'', [StrCell ''IC''])]\<rparr>)],
      preferences = Some \<lparr>ships = [], months = [7], ports = [''MIA'']\<rparr>,
      weights = Some \<lparr>raw = \<lparr>ship = 0, month = 0, port = 0, theo = 1\<rparr>,
                      normalized = \<lparr>ship = 0, month = 0, port = 0, theo = 1\<rparr>\<rparr>\<rparr>
     \<lparr>objects = (\<lambda>_. \<lparr>index = [5], cols = []\<rparr>), next_addr = 7, rng = (\<lambda>n. 0)\<rparr>)
   \<and> fst (handle_recommendations stable_argsort_desc True
     \<lparr>uploaded_file = Some [(''Master Sailings Grid'',
          \<lparr>index = [0], cols = [(''Ship Code'', [StrCell ''IC''])]\<rparr>)],
      preferences = Some \<lparr>ships = [''IC''], months = [], ports = []\<rparr>,
      weights = Some \<lparr>raw = \<lparr>ship = 1, month = 0, port = 0, theo = 0\<rparr>,
                      normalized = \<lparr>ship = 1, month = 0, port = 0, theo = 0\<rparr>\<rparr>\<rparr>
     (one_frame_world \<lparr>index = [], cols = []\<rparr> (\<lambda>n. 0)))
   = Shown (Some [(''Master Sailings Grid'',
                   \<lparr>index = [0], cols = [(''Ship Code'', [StrCell ''IC''])]\<rparr>),
                  (''Sailing Recommendations'',
                   \<lparr>index = [0], cols = [(''Rank'', [IntCell 1]), (''Ship Code'', [StrCell ''IC'']),
                                       (''Match Score'', [FloatCell 65])]\<rparr>)])"
proof (intro conjI)
  show "fst (handle_recommendations stable_argsort_desc True
     \<lparr>uploaded_file = Some [(''Master Sailings Grid'',
          \<lparr>index = [0], cols = [(''Ship Code'', [StrCell ''IC''])]\<rparr>)],
      preferences = Some \<lparr>ships = [''IC''], months = [], ports = []\<rparr>,
      weights = Some \<lparr>raw = \<lparr>ship = 1, month = 0, port = 0, theo = 0\<rparr>,
                      normalized = \<lparr>ship = 1, month = 0, port = 0, theo = 0\<rparr>\<rparr>\<rparr>
     (one_frame_world \<lparr>index = [], cols = []\<rparr> (\<lambda>n. 0)))
   = fst (handle_recommendations stable_argsort_desc True
     \<lparr>uploaded_file = Some [(''Master Sailings Grid'',
          \<lparr>index = [0], cols = [(''Ship Code'', [StrCell ''IC''])]\<rparr>)],
      preferences = Some \<lparr>ships = [], months = [7], ports = [''MIA'']\<rparr>,
      weights = Some \<lparr>raw = \<lparr>ship = 0, month = 0, port = 0, theo = 1\<rparr>,
                      normalized = \<lparr>ship = 0, month = 0, port = 0, theo = 1\<rparr>\<rparr>\<rparr>
     \<lparr>objects = (\<lambda>_. \<lparr>index = [5], cols = []\<rparr>), next_addr = 7, rng = (\<lambda>n. 0)\<rparr>)"
    by (rule same_generator_same_output) (simp_all add: one_frame_world_def)
  show "fst (handle_recommendations stable_argsort_desc True
     \<lparr>uploaded_file = Some [(''Master Sailings Grid'',
          \<lparr>index = [0], cols = [(''Ship Code'', [StrCell ''IC''])]\<rparr>)],
      preferences = Some \<lparr>ships = [''IC''], months = [], ports = []\<rparr>,
      weights = Some \<lparr>raw = \<lparr>ship = 1, month = 0, port = 0, theo = 0\<rparr>,
                      normalized = \<lparr>ship = 1, month = 0, port = 0, theo = 0\<rparr>\<rparr>\<rparr>
     (one_frame_world \<lparr>index = [], cols = []\<rparr> (\<lambda>n. 0)))
   = Shown (Some [(''Master Sailings Grid'',
                   \<lparr>index = [0], cols = [(''Ship Code'', [StrCell ''IC''])]\<rparr>),
                  (''Sailing Recommendations'',
                   \<lparr>index = [0], cols = [(''Rank'', [IntCell 1]), (''Ship Code'', [StrCell ''IC'']),
                                       (''Match Score'', [FloatCell 65])]\<rparr>)])"
    unfolding handle_recommendations_page returned_frame_eq
    by (simp add: run_simps display_full_results_def select_rows_def)
qed

section \<open>The Match Score of a record\<close>

text \<open>
  C2, as amended. In a frame that the step returns, the row at each position is an input
  row, and its Match Score is the score drawn for that input row: for input row \<open>i\<close> the
  score of the \<open>i\<close>-th output of the generator, \<open>round(65 + 30 * u, 2)\<close> for the draw
  \<open>u\<close>. The weights, the preferences and the fields of the record do not enter it. It
  lies between 0 and 100.
\<close>

theorem match_score_from_draw:
  assumes "returned_frame argsort_desc a w = Inr out"
  shows "\<exists>idx. list_all (\<lambda>i. i < len (objects w a)) idx
    \<and> map_of (cols out) ''Match Score'' = Some (map (\<lambda>i. FloatCell (score_of (rng w i))) idx)
    \<and> (\<forall>name vs. name \<noteq> ''Match Score'' \<longrightarrow> map_of (cols (objects w a)) name = Some vs
          \<longrightarrow> map_of (cols out) name = Some (map (\<lambda>i. vs ! i) idx))
    \<and> list_all (\<lambda>i. 0 \<le> score_of (rng w i) \<and> score_of (rng w i) \<le> 100) idx"
proof -
  define idx where
    "idx = argsort_desc (map (\<lambda>i. FloatCell (score_of (rng w i))) [0..<len (objects w a)])"
  note cols = returned_columns [OF assms, folded idx_def]
  have "0 \<le> score_of k \<and> score_of k \<le> 100" for k
    using score_of_range [of k] by simp
  then have "list_all (\<lambda>i. 0 \<le> score_of (rng w i) \<and> score_of (rng w i) \<le> 100) idx"
    by (simp add: list_all_iff)
  with cols(1) cols(5) cols(6) show ?thesis
    by blast
qed

theorem match_score_from_draw_witness:
  "returned_frame stable_argsort_desc 0
     (one_frame_world \<lparr>index = [0, 1], cols = [(''Ship Code'', [StrCell ''IC'', StrCell ''WN''])]\<rparr>
        (\<lambda>n. if n = 1 then 4503599627370496 else 0))
   = Inr \<lparr>index = [0, 1],
          cols = [(''Rank'', [IntCell 1, IntCell 2]),
                  (''Ship Code'', [StrCell ''WN'', StrCell ''IC'']),
                  (''Match Score'', [FloatCell 80, FloatCell 65])]\<rparr>
   \<and> (\<exists>idx. list_all (\<lambda>i. i < 2) idx
        \<and> [FloatCell 80, FloatCell 65]
            = map (\<lambda>i. FloatCell (score_of (if i = 1 then 4503599627370496 else 0))) idx
        \<and> [StrCell ''WN'', StrCell ''IC''] = map (\<lambda>i. [StrCell ''IC'', StrCell ''WN''] ! i) idx)"
proof -
  let ?df = "\<lparr>index = [0, 1], cols = [(''Ship Code'', [StrCell ''IC'', StrCell ''WN''])]\<rparr>"
  let ?w = "one_frame_world ?df (\<lambda>n. if n = 1 then 4503599627370496 else 0)"
  let ?out = "\<lparr>index = [0, 1],
          cols = [(''Rank'', [IntCell 1, IntCell 2]),
                  (''Ship Code'', [StrCell ''WN'', StrCell ''IC'']),
                  (''Match Score'', [FloatCell 80, FloatCell 65])]\<rparr>"
  have run: "returned_frame stable_argsort_desc 0 ?w = Inr ?out"
    unfolding returned_frame_eq by (simp add: run_simps)
  from match_score_from_draw [OF run]
  obtain idx where 1: "list_all (\<lambda>i. i < len (objects ?w 0)) idx"
    and 2: "map_of (cols ?out) ''Match Score'' = Some (map (\<lambda>i. FloatCell (score_of (rng ?w i))) idx)"
    and 3: "\<forall>name vs. name \<noteq> ''Match Score'' \<longrightarrow> map_of (cols (objects ?w 0)) name = Some vs
          \<longrightarrow> map_of (cols ?out) name = Some (map (\<lambda>i. vs ! i) idx)"
    by blast
  from 1 have a: "list_all (\<lambda>i. i < 2) idx"
    by (simp add: one_frame_world_def len_def numeral_2_eq_2)
  from 2 have b: "[FloatCell 80, FloatCell 65]
            = map (\<lambda>i. FloatCell (score_of (if i = 1 then 4503599627370496 else 0))) idx"
    by (simp add: one_frame_world_def)
  from 3 [rule_format, of "''Ship Code''" "[StrCell ''IC'', StrCell ''WN'']"]
  have c: "[StrCell ''WN'', StrCell ''IC''] = map (\<lambda>i. [StrCell ''IC'', StrCell ''WN''] ! i) idx"
    by (simp add: one_frame_world_def)
  from a b c have "\<exists>idx. list_all (\<lambda>i. i < 2) idx
        \<and> [FloatCell 80, FloatCell 65]
            = map (\<lambda>i. FloatCell (score_of (if i = 1 then 4503599627370496 else 0))) idx
        \<and> [StrCell ''WN'', StrCell ''IC''] = map (\<lambda>i. [StrCell ''IC'', StrCell ''WN''] ! i) idx"
    by (intro exI [of _ idx] conjI)
  with run show ?thesis by (intro conjI)
qed

text \<open>
  C2 as stated fails. On the example of section 8 of the specification, with raw weights
  3, 3, 3, 1 and the preferences ship A, month 1, port X, the weighted sum gives the
  second record the score 5; the step gives it (and every record) a score drawn from 65
  to 95, here 65.
\<close>

theorem weighted_sum_counterexample:
  "returned_frame stable_argsort_desc 0
     (one_frame_world
        \<lparr>index = [0, 1, 2],
         cols = [(''Ship Code'', [StrCell ''A'', StrCell ''B'', StrCell ''A'']),
                 (''Month'', [IntCell 1, IntCell 2, IntCell 1]),
                 (''Originating Port'', [StrCell ''X'', StrCell ''Y'', StrCell ''X'']),
                 (''Theo Adjustment'', [IntCell 10, IntCell 20, IntCell 30])]\<rparr>
        (\<lambda>n. 0))
   = Inr \<lparr>index = [0, 1, 2],
          cols = [(''Rank'', [IntCell 1, IntCell 2, IntCell 3]),
                  (''Ship Code'', [StrCell ''A'', StrCell ''B'', StrCell ''A'']),
                  (''Month'', [IntCell 1, IntCell 2, IntCell 1]),
                  (''Originating Port'', [StrCell ''X'', StrCell ''Y'', StrCell ''X'']),
                  (''Theo Adjustment'', [IntCell 10, IntCell 20, IntCell 30]),
                  (''Match Score'', [FloatCell 65, FloatCell 65, FloatCell 65])]\<rparr>
   \<and> spec_match_score \<lparr>ship = 3, month = 3, port = 3, theo = 1\<rparr>
        \<lparr>ships = [''A''], months = [1], ports = [''X'']\<rparr> 10 30
        \<lparr>ship_id = ''B'', sailing_month = 2, origin_port = ''Y'', profitability = 20\<rparr> = 5"
proof (intro conjI)
  show "returned_frame stable_argsort_desc 0
     (one_frame_world
        \<lparr>index = [0, 1, 2],
         cols = [(''Ship Code'', [StrCell ''A'', StrCell ''B'', StrCell ''A'']),
                 (''Month'', [IntCell 1, IntCell 2, IntCell 1]),
                 (''Originating Port'', [StrCell ''X'', StrCell ''Y'', StrCell ''X'']),
                 (''Theo Adjustment'', [IntCell 10, IntCell 20, IntCell 30])]\<rparr>
        (\<lambda>n. 0))
   = Inr \<lparr>index = [0, 1, 2],
          cols = [(''Rank'', [IntCell 1, IntCell 2, IntCell 3]),
                  (''Ship Code'', [StrCell ''A'', StrCell ''B'', StrCell ''A'']),
                  (''Month'', [IntCell 1, IntCell 2, IntCell 1]),
                  (''Originating Port'', [StrCell ''X'', StrCell ''Y'', StrCell ''X'']),
                  (''Theo Adjustment'', [IntCell 10, IntCell 20, IntCell 30]),
                  (''Match Score'', [FloatCell 65, FloatCell 65, FloatCell 65])]\<rparr>"
    unfolding returned_frame_eq by (simp add: run_simps)
  show "spec_match_score \<lparr>ship = 3, month = 3, port = 3, theo = 1\<rparr>
        \<lparr>ships = [''A''], months = [1], ports = [''X'']\<rparr> 10 30
        \<lparr>ship_id = ''B'', sailing_month = 2, origin_port = ''Y'', profitability = 20\<rparr> = 5"
    by (simp add: spec_match_score_def ship_scorer_def month_scorer_def port_scorer_def
        profitability_scorer_def)
qed

section \<open>Rows and columns of the returned frame\<close>

lemma update_absent:
  assumes "k \<notin> fst ` set al"
  shows "AList.update k v al = al @ [(k, v)]"
  using assms by (induction al) auto

text \<open>Off the two column names that the step uses itself, it returns one scored row for
  each input row.\<close>

lemma one_row_per_input_row:
  assumes "descending_indexer argsort_desc"
    and "''Rank'' \<notin> set (column_names (objects w a))"
  shows "\<exists>out. returned_frame argsort_desc a w = Inr out \<and> len out = len (objects w a)"
proof -
  define n where "n = len (objects w a)"
  note perm = descending_indexer_perm [OF assms(1), where g = "\<lambda>i. score_of (rng w i)" and n = n]
  show ?thesis
    unfolding returned_frame_eq Let_def
    using perm(2,3) assms(2) by (simp add: n_def len_def)
qed

text \<open>For a sheet with neither a Rank nor a Match Score column, the returned frame has
  the columns of the sheet between the two new ones, and each of its rows is an input
  row: the rows are those of the sheet, rearranged.\<close>

lemma recommendation_columns:
  assumes "descending_indexer argsort_desc"
    and "''Rank'' \<notin> set (column_names (objects w a))"
    and "''Match Score'' \<notin> set (column_names (objects w a))"
  shows "\<exists>out idx. returned_frame argsort_desc a w = Inr out
    \<and> mset idx = mset [0..<len (objects w a)]
    \<and> column_names out = ''Rank'' # column_names (objects w a) @ [''Match Score'']
    \<and> cols out = (''Rank'', map IntCell [1..int (len (objects w a))])
        # map (\<lambda>(name, vs). (name, map (\<lambda>i. vs ! i) idx)) (cols (objects w a))
        @ [(''Match Score'', map (\<lambda>i. FloatCell (score_of (rng w i))) idx)]"
proof -
  define df where "df = objects w a"
  define n where "n = len df"
  define vals where "vals = map (\<lambda>i. FloatCell (score_of (rng w i))) [0..<n]"
  define idx where "idx = argsort_desc vals"
  note perm = descending_indexer_perm [OF assms(1), where g = "\<lambda>i. score_of (rng w i)" and n = n,
      folded vals_def, folded idx_def]
  define out where "out = \<lparr>index = map int [0..<length idx],
      cols = (''Rank'', map IntCell [1..int (length idx)]) #
        map (\<lambda>(name, vs). (name, map (\<lambda>i. vs ! i) idx)) (AList.update ''Match Score'' vals (cols df))\<rparr>"
  have run: "returned_frame argsort_desc a w = Inr out"
    unfolding returned_frame_eq Let_def
    using perm(3) assms(2) by (simp add: out_def idx_def vals_def n_def df_def)
  have upd: "AList.update ''Match Score'' vals (cols df) = cols df @ [(''Match Score'', vals)]"
    using assms(3) by (intro update_absent) (simp add: df_def column_names_def)
  have taken: "map (\<lambda>i. vals ! i) idx = map (\<lambda>i. FloatCell (score_of (rng w i))) idx"
    using perm(3) by (simp add: vals_def list_all_iff)
  have cs: "cols out = (''Rank'', map IntCell [1..int n])
        # map (\<lambda>(name, vs). (name, map (\<lambda>i. vs ! i) idx)) (cols df)
        @ [(''Match Score'', map (\<lambda>i. FloatCell (score_of (rng w i))) idx)]"
    by (simp add: out_def upd perm(2) taken)
  have names: "column_names out = ''Rank'' # column_names df @ [''Match Score'']"
    by (simp add: column_names_def cs case_prod_unfold comp_def)
  from run perm(1) names cs show ?thesis
    unfolding n_def df_def by blast
qed

text \<open>
  C6 fails on a sheet that has a column named Rank: \<open>insert(0, 'Rank', ...)\<close> raises
  and the step returns no record at all.
\<close>

theorem existing_rank_column_raises:
  "returned_frame stable_argsort_desc 0
     (one_frame_world
        \<lparr>index = [0, 1],
         cols = [(''Rank'', [IntCell 7, IntCell 3]),
                 (''Ship Code'', [StrCell ''IC'', StrCell ''WN''])]\<rparr>
        (\<lambda>n. 0))
   = Inl (ValueError ''cannot insert Rank, already exists'')"
  unfolding returned_frame_eq by (simp add: run_simps)

text \<open>
  C10 fails on a sheet that has a column named Match Score: the step leaves the frame it
  was given as it is, but in the frame it returns the cells of that column are replaced
  by the drawn scores, and only the Rank column is new.
\<close>

theorem existing_match_score_overwritten:
  "returned_frame stable_argsort_desc 0
     (one_frame_world
        \<lparr>index = [0],
         cols = [(''Match Score'', [FloatCell 10]), (''Ship Code'', [StrCell ''IC''])]\<rparr>
        (\<lambda>n. 0))
   = Inr \<lparr>index = [0],
          cols = [(''Rank'', [IntCell 1]), (''Match Score'', [FloatCell 65]),
                  (''Ship Code'', [StrCell ''IC''])]\<rparr>
   \<and> objects (snd (create_dummy_recommendations_with_scores stable_argsort_desc 0
        (one_frame_world
           \<lparr>index = [0],
            cols = [(''Match Score'', [FloatCell 10]), (''Ship Code'', [StrCell ''IC''])]\<rparr>
           (\<lambda>n. 0)))) 0
     = \<lparr>index = [0],
        cols = [(''Match Score'', [FloatCell 10]), (''Ship Code'', [StrCell ''IC''])]\<rparr>"
proof (intro conjI)
  show "returned_frame stable_argsort_desc 0
     (one_frame_world
        \<lparr>index = [0],
         cols = [(''Match Score'', [FloatCell 10]), (''Ship Code'', [StrCell ''IC''])]\<rparr>
        (\<lambda>n. 0))
   = Inr \<lparr>index = [0],
          cols = [(''Rank'', [IntCell 1]), (''Match Score'', [FloatCell 65]),
                  (''Ship Code'', [StrCell ''IC''])]\<rparr>"
    unfolding returned_frame_eq by (simp add: run_simps)
  show "objects (snd (create_dummy_recommendations_with_scores stable_argsort_desc 0
        (one_frame_world
           \<lparr>index = [0],
            cols = [(''Match Score'', [FloatCell 10]), (''Ship Code'', [StrCell ''IC''])]\<rparr>
           (\<lambda>n. 0)))) 0
     = \<lparr>index = [0],
        cols = [(''Match Score'', [FloatCell 10]), (''Ship Code'', [StrCell ''IC''])]\<rparr>"
    using source_dataset_unchanged [of 0 "one_frame_world
           \<lparr>index = [0],
            cols = [(''Match Score'', [FloatCell 10]), (''Ship Code'', [StrCell ''IC''])]\<rparr>
           (\<lambda>n. 0)" stable_argsort_desc]
    by (simp add: one_frame_world_def)
qed

section \<open>Weights that are all zero\<close>

lemma handle_recommendations_refused:
  assumes "weights s = None"
  shows "\<exists>text. handle_recommendations argsort_desc button s w = (Warning text, w)"
  using assms by (simp add: handle_recommendations_def Let_def split: list.splits option.splits)

text \<open>Line 301 is the only place that stores weights, and it is behind the test of lines
  287 to 289: no session holds raw weights that are all zero.\<close>

lemma stored_weights_not_all_zero:
  assumes "reachable s" and "weights s = Some c"
  shows "raw c \<noteq> \<lparr>ship = 0, month = 0, port = 0, theo = 0\<rparr>"
  using assms
proof (induction arbitrary: c rule: reachable.induct)
  case start
  then show ?case by simp
next
  case (run s step)
  show ?case
  proof (cases step)
    case (Upload_Data uploaded)
    with run show ?thesis
      by (auto simp add: handle_file_upload_def split: option.splits)
  next
    case (Set_Preferences ship_list month_list port_list)
    with run show ?thesis
      by (auto simp add: handle_preferences_def split: if_splits)
  next
    case (Configure_Weights sliders)
    with run show ?thesis
      by (auto simp add: handle_weights_def split: if_splits sum.splits)
  next
    case (Generate_Recommendations button)
    with run show ?thesis by simp
  qed
qed

lemma equal_weights: "normalized_weights \<lparr>ship = 3, month = 3, port = 3, theo = 3\<rparr>
    = Inr \<lparr>ship = 1 / 4, month = 1 / 4, port = 1 / 4, theo = 1 / 4\<rparr>"
  by code_simp

text \<open>
  C5. When the four sliders are all zero, \<open>handle_weights\<close> refuses the configuration
  before it normalises anything: its page is the error message (the upload warning while
  no file is uploaded) and the session is left as it was, so nothing is computed and
  nothing is stored. No session that the script can be in holds weights that are all
  zero, and whenever step 4 produces scored output, the weights in the session are a
  configuration that is not all zero.
\<close>

theorem all_zero_configuration_refused:
  "handle_weights \<lparr>ship = 0, month = 0, port = 0, theo = 0\<rparr> s
     = (if uploaded_file s = None then Warning ''Please upload a file first (Step 1).''
        else Error ''At least one factor must be greater than 0!'', s)
   \<and> (reachable s \<longrightarrow> weights s = Some c \<longrightarrow>
        raw c \<noteq> \<lparr>ship = 0, month = 0, port = 0, theo = 0\<rparr>)
   \<and> (reachable s \<longrightarrow>
        fst (handle_recommendations argsort_desc button s w) = Shown (Some book) \<longrightarrow>
        (\<exists>c. weights s = Some c \<and> raw c \<noteq> \<lparr>ship = 0, month = 0, port = 0, theo = 0\<rparr>))"
proof (intro conjI impI)
  show "handle_weights \<lparr>ship = 0, month = 0, port = 0, theo = 0\<rparr> s
     = (if uploaded_file s = None then Warning ''Please upload a file first (Step 1).''
        else Error ''At least one factor must be greater than 0!'', s)"
    by (simp add: handle_weights_def)
  show "raw c \<noteq> \<lparr>ship = 0, month = 0, port = 0, theo = 0\<rparr>"
    if "reachable s" and "weights s = Some c"
    using that by (rule stored_weights_not_all_zero)
  show "\<exists>c. weights s = Some c \<and> raw c \<noteq> \<lparr>ship = 0, month = 0, port = 0, theo = 0\<rparr>"
    if r: "reachable s"
      and scored: "fst (handle_recommendations argsort_desc button s w) = Shown (Some book)"
  proof (cases "weights s")
    case None
    from handle_recommendations_refused [OF this, of argsort_desc button w] scored
    show ?thesis by auto
  next
    case (Some c)
    with stored_weights_not_all_zero [OF r Some] show ?thesis by simp
  qed
qed

theorem all_zero_configuration_refused_witness:
  "reachable
     \<lparr>uploaded_file = Some [(''Master Sailings Grid'',
          \<lparr>index = [0], cols = [(''Ship Code'', [StrCell ''IC''])]\<rparr>)],
      preferences = Some \<lparr>ships = [], months = [], ports = []\<rparr>,
      weights = Some \<lparr>raw = \<lparr>ship = 3, month = 3, port = 3, theo = 3\<rparr>,
        normalized = \<lparr>ship = 1 / 4, month = 1 / 4, port = 1 / 4, theo = 1 / 4\<rparr>\<rparr>\<rparr>
   \<and> handle_weights \<lparr>ship = 0, month = 0, port = 0, theo = 0\<rparr>
     \<lparr>uploaded_file = Some [(''Master Sailings Grid'',
          \<lparr>index = [0], cols = [(''Ship Code'', [StrCell ''IC''])]\<rparr>)],
      preferences = Some \<lparr>ships = [], months = [], ports = []\<rparr>,
      weights = Some \<lparr>raw = \<lparr>ship = 3, month = 3, port = 3, theo = 3\<rparr>,
        normalized = \<lparr>ship = 1 / 4, month = 1 / 4, port = 1 / 4, theo = 1 / 4\<rparr>\<rparr>\<rparr>
   = (Error ''At least one factor must be greater than 0!'',
      \<lparr>uploaded_file = Some [(''Master Sailings Grid'',
          \<lparr>index = [0], cols = [(''Ship Code'', [StrCell ''IC''])]\<rparr>)],
       preferences = Some \<lparr>ships = [], months = [], ports = []\<rparr>,
       weights = Some \<lparr>raw = \<lparr>ship = 3, month = 3, port = 3, theo = 3\<rparr>,
         normalized = \<lparr>ship = 1 / 4, month = 1 / 4, port = 1 / 4, theo = 1 / 4\<rparr>\<rparr>\<rparr>)
   \<and> fst (handle_recommendations stable_argsort_desc True
     \<lparr>uploaded_file = Some [(''Master Sailings Grid'',
          \<lparr>index = [0], cols = [(''Ship Code'', [StrCell ''IC''])]\<rparr>)],
      preferences = Some \<lparr>ships = [], months = [], ports = []\<rparr>,
      weights = Some \<lparr>raw = \<lparr>ship = 3, month = 3, port = 3, theo = 3\<rparr>,
        normalized = \<lparr>ship = 1 / 4, month = 1 / 4, port = 1 / 4, theo = 1 / 4\<rparr>\<rparr>\<rparr>
     (one_frame_world \<lparr>index = [], cols = []\<rparr> (\<lambda>n. 0)))
   = Shown (Some [(''Master Sailings Grid'',
                   \<lparr>index = [0], cols = [(''Ship Code'', [StrCell ''IC''])]\<rparr>),
                  (''Sailing Recommendations'',
                   \<lparr>index = [0], cols = [(''Rank'', [IntCell 1]), (''Ship Code'', [StrCell ''IC'']),
                                       (''Match Score'', [FloatCell 65])]\<rparr>)])
   \<and> (\<exists>c. Some \<lparr>raw = \<lparr>ship = 3, month = 3, port = 3, theo = 3\<rparr>,
               normalized = \<lparr>ship = 1 / 4, month = 1 / 4, port = 1 / 4, theo = 1 / 4\<rparr>\<rparr> = Some c
          \<and> raw c \<noteq> \<lparr>ship = (0::nat), month = 0, port = 0, theo = 0\<rparr>)"
proof -
  let ?book = "[(''Master Sailings Grid'',
      \<lparr>index = [0], cols = [(''Ship Code'', [StrCell ''IC''])]\<rparr>)]"
  let ?p = "\<lparr>ships = [], months = [], ports = []\<rparr>"
  let ?c = "\<lparr>raw = \<lparr>ship = 3, month = 3, port = 3, theo = 3\<rparr>,
      normalized = \<lparr>ship = 1 / 4, month = 1 / 4, port = 1 / 4, theo = 1 / 4\<rparr>\<rparr>"
  let ?s0 = "\<lparr>uploaded_file = None, preferences = None, weights = None\<rparr>"
  let ?s1 = "\<lparr>uploaded_file = Some ?book, preferences = None, weights = None\<rparr>"
  let ?s2 = "\<lparr>uploaded_file = Some ?book, preferences = Some ?p, weights = None\<rparr>"
  let ?s3 = "\<lparr>uploaded_file = Some ?book, preferences = Some ?p, weights = Some ?c\<rparr>"
  let ?w = "one_frame_world \<lparr>index = [], cols = []\<rparr> (\<lambda>n. 0)"
  let ?out = "[(''Master Sailings Grid'',
                   \<lparr>index = [0], cols = [(''Ship Code'', [StrCell ''IC''])]\<rparr>),
                  (''Sailing Recommendations'',
                   \<lparr>index = [0], cols = [(''Rank'', [IntCell 1]), (''Ship Code'', [StrCell ''IC'']),
                                       (''Match Score'', [FloatCell 65])]\<rparr>)]"
  have "main (Upload_Data (Some ?book)) ?s0 = ?s1"
    by (simp add: handle_file_upload_def)
  with reachable.run [OF reachable.start, of "Upload_Data (Some ?book)"]
  have r1: "reachable ?s1" by simp
  have "main (Set_Preferences [] [] []) ?s1 = ?s2"
    by (simp add: handle_preferences_def)
  with reachable.run [OF r1, of "Set_Preferences [] [] []"]
  have r2: "reachable ?s2" by simp
  have "main (Configure_Weights \<lparr>ship = 3, month = 3, port = 3, theo = 3\<rparr>) ?s2 = ?s3"
    by (simp add: handle_weights_def equal_weights)
  with reachable.run [OF r2, of "Configure_Weights \<lparr>ship = 3, month = 3, port = 3, theo = 3\<rparr>"]
  have r3: "reachable ?s3" by simp
  have scored: "fst (handle_recommendations stable_argsort_desc True ?s3 ?w) = Shown (Some ?out)"
    unfolding handle_recommendations_page returned_frame_eq
    by (simp add: run_simps display_full_results_def select_rows_def)
  note inst = all_zero_configuration_refused [of ?s3 ?c stable_argsort_desc True ?w ?out]
  from inst have refused: "handle_weights \<lparr>ship = 0, month = 0, port = 0, theo = 0\<rparr> ?s3
      = (Error ''At least one factor must be greater than 0!'', ?s3)"
    by simp
  from inst r3 scored
  have "\<exists>c. weights ?s3 = Some c \<and> raw c \<noteq> \<lparr>ship = 0, month = 0, port = 0, theo = 0\<rparr>"
    by blast
  then have stored: "\<exists>c. Some ?c = Some c \<and> raw c \<noteq> \<lparr>ship = (0::nat), month = 0, port = 0, theo = 0\<rparr>"
    by simp
  from r3 refused scored stored show ?thesis by (intro conjI)
qed

section \<open>Sheets without the expected columns\<close>

lemma skip_ship_filter:
  assumes "''Ship Code'' \<notin> set (column_names df)"
  shows "display_full_results df ship_choice month_choice min_score
       = display_full_results df [] month_choice min_score"
  using assms by (simp add: display_full_results_def)

lemma skip_month_filter:
  assumes "''Month'' \<notin> set (column_names df)"
  shows "display_full_results df ship_choice month_choice min_score
       = display_full_results df ship_choice [] min_score"
  using assms by (simp add: display_full_results_def)

lemma returned_names:
  assumes "returned_frame argsort_desc a w = Inr out"
  shows "set (column_names out)
       = insert ''Rank'' (insert ''Match Score'' (set (column_names (objects w a))))"
  using returned_columns(7) [OF assms] by (simp add: column_names_def names_update)

text \<open>
  C8, as amended. A sheet is not refused for lacking the ship, month, port or
  profitability column: the recommendation step reads none of them, and for any sheet
  without a column named Rank it returns one scored row per input row. The full results
  view then leaves out the filter of a missing Ship Code or Month column: whatever is
  chosen there, it shows what it shows with nothing chosen.
\<close>

theorem missing_fields_are_skipped:
  assumes "descending_indexer argsort_desc"
    and "''Rank'' \<notin> set (column_names (objects w a))"
  shows "\<exists>out. returned_frame argsort_desc a w = Inr out \<and> len out = len (objects w a)
    \<and> (''Ship Code'' \<notin> set (column_names (objects w a)) \<longrightarrow>
          display_full_results out ship_choice month_choice min_score
            = display_full_results out [] month_choice min_score)
    \<and> (''Month'' \<notin> set (column_names (objects w a)) \<longrightarrow>
          display_full_results out ship_choice month_choice min_score
            = display_full_results out ship_choice [] min_score)"
proof -
  from one_row_per_input_row [OF assms]
  obtain out where run: "returned_frame argsort_desc a w = Inr out"
    and rows: "len out = len (objects w a)"
    by blast
  have "''Ship Code'' \<notin> set (column_names out)"
    if "''Ship Code'' \<notin> set (column_names (objects w a))"
    using that by (simp add: returned_names [OF run])
  moreover have "''Month'' \<notin> set (column_names out)"
    if "''Month'' \<notin> set (column_names (objects w a))"
    using that by (simp add: returned_names [OF run])
  ultimately show ?thesis
    using run rows skip_ship_filter skip_month_filter by blast
qed

theorem missing_fields_are_skipped_witness:
  "descending_indexer stable_argsort_desc
   \<and> ''Rank'' \<notin> set (column_names \<lparr>index = [0, 1],
         cols = [(''Cabin'', [StrCell ''Inside'', StrCell ''Suite''])]\<rparr>)
   \<and> ''Ship Code'' \<notin> set (column_names \<lparr>index = [0, 1],
         cols = [(''Cabin'', [StrCell ''Inside'', StrCell ''Suite''])]\<rparr>)
   \<and> returned_frame stable_argsort_desc 0
     (one_frame_world \<lparr>index = [0, 1],
         cols = [(''Cabin'', [StrCell ''Inside'', StrCell ''Suite''])]\<rparr> (\<lambda>n. 0))
   = Inr \<lparr>index = [0, 1],
          cols = [(''Rank'', [IntCell 1, IntCell 2]),
                  (''Cabin'', [StrCell ''Inside'', StrCell ''Suite'']),
                  (''Match Score'', [FloatCell 65, FloatCell 65])]\<rparr>
   \<and> display_full_results \<lparr>index = [0, 1],
          cols = [(''Rank'', [IntCell 1, IntCell 2]),
                  (''Cabin'', [StrCell ''Inside'', StrCell ''Suite'']),
                  (''Match Score'', [FloatCell 65, FloatCell 65])]\<rparr> [StrCell ''IC''] [] 70
   = display_full_results \<lparr>index = [0, 1],
          cols = [(''Rank'', [IntCell 1, IntCell 2]),
                  (''Cabin'', [StrCell ''Inside'', StrCell ''Suite'']),
                  (''Match Score'', [FloatCell 65, FloatCell 65])]\<rparr> [] [] 70"
proof -
  let ?df = "\<lparr>index = [0, 1], cols = [(''Cabin'', [StrCell ''Inside'', StrCell ''Suite''])]\<rparr>"
  let ?w = "one_frame_world ?df (\<lambda>n. 0)"
  let ?out = "\<lparr>index = [0, 1],
          cols = [(''Rank'', [IntCell 1, IntCell 2]),
                  (''Cabin'', [StrCell ''Inside'', StrCell ''Suite'']),
                  (''Match Score'', [FloatCell 65, FloatCell 65])]\<rparr>"
  have obj: "objects ?w 0 = ?df"
    by (simp add: one_frame_world_def)
  have rank: "''Rank'' \<notin> set (column_names (objects ?w 0))"
    and ship: "''Ship Code'' \<notin> set (column_names (objects ?w 0))"
    by (simp_all add: obj column_names_def)
  have run: "returned_frame stable_argsort_desc 0 ?w = Inr ?out"
    unfolding returned_frame_eq by (simp add: run_simps)
  from missing_fields_are_skipped [OF descending_stable_argsort rank, of "[StrCell ''IC'']" "[]" 70]
    run ship
  have "display_full_results ?out [StrCell ''IC''] [] 70 = display_full_results ?out [] [] 70"
    by auto
  with descending_stable_argsort rank ship run show ?thesis
    unfolding obj by (intro conjI)
qed

text \<open>
  C8 as stated fails. A sheet with none of the four fields is scored like any other, and
  the view shows its rows whatever is chosen in the filters; no error is raised.
\<close>

theorem missing_fields_counterexample:
  "returned_frame stable_argsort_desc 0
     (one_frame_world \<lparr>index = [0, 1],
         cols = [(''Cabin'', [StrCell ''Inside'', StrCell ''Suite''])]\<rparr> (\<lambda>n. 0))
   = Inr \<lparr>index = [0, 1],
          cols = [(''Rank'', [IntCell 1, IntCell 2]),
                  (''Cabin'', [StrCell ''Inside'', StrCell ''Suite'']),
                  (''Match Score'', [FloatCell 65, FloatCell 65])]\<rparr>
   \<and> display_full_results \<lparr>index = [0, 1],
          cols = [(''Rank'', [IntCell 1, IntCell 2]),
                  (''Cabin'', [StrCell ''Inside'', StrCell ''Suite'']),
                  (''Match Score'', [FloatCell 65, FloatCell 65])]\<rparr>
        [StrCell ''IC''] [IntCell 7] 0
   = Inr \<lparr>index = [0, 1],
          cols = [(''Rank'', [IntCell 1, IntCell 2]),
                  (''Cabin'', [StrCell ''Inside'', StrCell ''Suite'']),
                  (''Match Score'', [FloatCell 65, FloatCell 65])]\<rparr>"
proof (intro conjI)
  show "returned_frame stable_argsort_desc 0
     (one_frame_world \<lparr>index = [0, 1],
         cols = [(''Cabin'', [StrCell ''Inside'', StrCell ''Suite''])]\<rparr> (\<lambda>n. 0))
   = Inr \<lparr>index = [0, 1],
          cols = [(''Rank'', [IntCell 1, IntCell 2]),
                  (''Cabin'', [StrCell ''Inside'', StrCell ''Suite'']),
                  (''Match Score'', [FloatCell 65, FloatCell 65])]\<rparr>"
    unfolding returned_frame_eq by (simp add: run_simps)
  show "display_full_results \<lparr>index = [0, 1],
          cols = [(''Rank'', [IntCell 1, IntCell 2]),
                  (''Cabin'', [StrCell ''Inside'', StrCell ''Suite'']),
                  (''Match Score'', [FloatCell 65, FloatCell 65])]\<rparr>
        [StrCell ''IC''] [IntCell 7] 0
   = Inr \<lparr>index = [0, 1],
          cols = [(''Rank'', [IntCell 1, IntCell 2]),
                  (''Cabin'', [StrCell ''Inside'', StrCell ''Suite'']),
                  (''Match Score'', [FloatCell 65, FloatCell 65])]\<rparr>"
    by (simp add: display_full_results_def column_names_def select_rows_def)
qed

section \<open>The factor scorers of the specification\<close>

text \<open>
  C7. With all three preference sets empty, the ship, month and port scorers of the
  specification return 1 for every record; with a set that is not empty, the scorer
  returns 1 if the record's value is in it and 0 otherwise.
\<close>

theorem binary_factor_scorers:
  "(ships p = [] \<and> months p = [] \<and> ports p = [] \<longrightarrow>
      ship_scorer r p = 1 \<and> month_scorer r p = 1 \<and> port_scorer r p = 1)
   \<and> (ships p \<noteq> [] \<longrightarrow> ship_scorer r p = (if ship_id r \<in> set (ships p) then 1 else 0))
   \<and> (months p \<noteq> [] \<longrightarrow> month_scorer r p = (if sailing_month r \<in> set (months p) then 1 else 0))
   \<and> (ports p \<noteq> [] \<longrightarrow> port_scorer r p = (if origin_port r \<in> set (ports p) then 1 else 0))"
  by (simp add: ship_scorer_def month_scorer_def port_scorer_def)

theorem binary_factor_scorers_witness:
  "ship_scorer \<lparr>ship_id = ''B'', sailing_month = 2, origin_port = ''Y'', profitability = 20\<rparr>
       \<lparr>ships = [], months = [], ports = []\<rparr> = 1
   \<and> month_scorer \<lparr>ship_id = ''B'', sailing_month = 2, origin_port = ''Y'', profitability = 20\<rparr>
       \<lparr>ships = [], months = [], ports = []\<rparr> = 1
   \<and> port_scorer \<lparr>ship_id = ''B'', sailing_month = 2, origin_port = ''Y'', profitability = 20\<rparr>
       \<lparr>ships = [], months = [], ports = []\<rparr> = 1
   \<and> ship_scorer \<lparr>ship_id = ''B'', sailing_month = 2, origin_port = ''Y'', profitability = 20\<rparr>
       \<lparr>ships = [''A''], months = [1, 2], ports = [''X'']\<rparr> = 0
   \<and> month_scorer \<lparr>ship_id = ''B'', sailing_month = 2, origin_port = ''Y'', profitability = 20\<rparr>
       \<lparr>ships = [''A''], months = [1, 2], ports = [''X'']\<rparr> = 1
   \<and> port_scorer \<lparr>ship_id = ''B'', sailing_month = 2, origin_port = ''Y'', profitability = 20\<rparr>
       \<lparr>ships = [''A''], months = [1, 2], ports = [''X'']\<rparr> = 0"
  using
    binary_factor_scorers [of "\<lparr>ships = [], months = [], ports = []\<rparr>"
      "\<lparr>ship_id = ''B'', sailing_month = 2, origin_port = ''Y'', profitability = 20\<rparr>"]
    binary_factor_scorers [of "\<lparr>ships = [''A''], months = [1, 2], ports = [''X'']\<rparr>"
      "\<lparr>ship_id = ''B'', sailing_month = 2, origin_port = ''Y'', profitability = 20\<rparr>"]
  by simp

end
